theory Spec2Isabelle
  imports Complex_Main
begin

section \<open>Data model of the media-analysis services (services/ai\_analysis.py)\<close>

text \<open>
  The services exchange Python dictionaries that are used as structs. A key that the code
  reads with \<^verbatim>\<open>d[key]\<close> is a field of a record; a key that the code reads with
  \<^verbatim>\<open>d.get(key, default)\<close> or tests with \<^verbatim>\<open>in\<close> is an optional field
  (\<open>None\<close> when the key is absent). Field names carry a short prefix because record fields
  share one name space. Python floats are read as real numbers and Python strings as
  character lists.
\<close>

text \<open>
  A value in a component's \<^verbatim>\<open>properties\<close> dictionary is a boolean or a string;
  \<open>truthy\<close> is Python's truth value of it, as used by \<^verbatim>\<open>not ...\<close>.
\<close>

datatype prop_value = PBool bool | PStr string

fun truthy :: "prop_value \<Rightarrow> bool" where
  "truthy (PBool b) = b"
| "truthy (PStr s) = (s \<noteq> [])"

record detection =
  c_type :: string
  c_confidence :: real
  c_bbox :: "int list"
  c_properties :: "string \<rightharpoonup> prop_value"
  c_id :: "string option"

record violation =
  v_type :: string
  v_severity :: string
  v_description :: string
  v_code_reference :: "string option"
  v_component_id :: "string option"
  v_confidence :: real

record assessment =
  a_overall_result :: string
  a_confidence :: real
  a_summary :: "(string \<times> nat) list"

record confidence_scores =
  overall_confidence :: real
  component_detection :: "real option"
  violation_detection :: "real option"

record analysis_metadata =
  model_version :: string
  analysis_timestamp :: real
  image_dimensions :: "nat \<times> nat"

record analysis =
  r_detected_components :: "detection list option"
  r_violations_found :: "violation list option"
  r_overall_result :: "string option"
  r_confidence_scores :: confidence_scores
  r_summary :: "(string \<times> nat) list"
  r_recommendations :: "string list"
  r_analysis_metadata :: "analysis_metadata option"
  r_error :: "string option"

record frame_analysis =
  frame_number :: nat
  timestamp :: real
  frame_result :: analysis

record video_assessment =
  va_frame_analyses :: "frame_analysis list"
  va_overall_result :: string
  va_duration :: real
  va_summary :: "(string \<times> nat) list"
  va_error :: "string option"

section \<open>ImageAnalysisService\<close>

subsection \<open>check\_code\_violations\<close>

text \<open>
  \<^verbatim>\<open>component['properties'].get('gfci_protected', False)\<close>: the stored value, or
  \<^verbatim>\<open>False\<close> when the key is absent.
\<close>

definition get_gfci_protected :: "detection \<Rightarrow> prop_value" where
  "get_gfci_protected component =
     (case c_properties component ''gfci_protected'' of
        None \<Rightarrow> PBool False
      | Some v \<Rightarrow> v)"

definition missing_gfci_violation :: "detection \<Rightarrow> violation" where
  "missing_gfci_violation component =
     \<lparr> v_type = ''missing_gfci'',
       v_severity = ''high'',
       v_description = ''GFCI protection may be required for this outlet location'',
       v_code_reference = Some ''NEC 210.8'',
       v_component_id = c_id component,
       v_confidence = 75 / 100 \<rparr>"

definition potential_overcrowding_violation :: "detection \<Rightarrow> violation" where
  "potential_overcrowding_violation component =
     \<lparr> v_type = ''potential_overcrowding'',
       v_severity = ''medium'',
       v_description =
         ''Junction box may be overcrowded - verify wire fill calculations'',
       v_code_reference = Some ''NEC 314.16'',
       v_component_id = c_id component,
       v_confidence = 60 / 100 \<rparr>"

text \<open>
  The \<^verbatim>\<open>for component in components\<close> loop; the second argument is the list
  \<^verbatim>\<open>violations\<close> that the loop appends to. The unused parameter
  \<^verbatim>\<open>image_path\<close> is left out. Nothing in the loop body can raise on a record, so
  the handler that returns \<^verbatim>\<open>[]\<close> has no branch here.
\<close>

fun check_loop :: "detection list \<Rightarrow> violation list \<Rightarrow> violation list" where
  "check_loop [] violations = violations"
| "check_loop (component # rest) violations =
     (if c_type component = ''outlet'' then
        (if \<not> truthy (get_gfci_protected component)
         then check_loop rest (violations @ [missing_gfci_violation component])
         else check_loop rest violations)
      else if c_type component = ''junction_box'' then
        check_loop rest (violations @ [potential_overcrowding_violation component])
      else check_loop rest violations)"

definition check_code_violations :: "detection list \<Rightarrow> violation list" where
  "check_code_violations components = check_loop components []"

subsection \<open>calculate\_overall\_assessment\<close>

definition calculate_overall_assessment ::
  "detection list \<Rightarrow> violation list \<Rightarrow> assessment" where
  "calculate_overall_assessment components violations =
     (let high_severity_violations = filter (\<lambda>v. v_severity v = ''high'') violations;
          medium_severity_violations = filter (\<lambda>v. v_severity v = ''medium'') violations;
          (overall_result, confidence) =
            (if length high_severity_violations > 0 then (''fail'', 85 / 100)
             else if length medium_severity_violations > 2 then (''warning'', 70 / 100)
             else (''pass'', 90 / 100))
      in \<lparr> a_overall_result = overall_result,
           a_confidence = confidence,
           a_summary =
             [(''components_detected'', length components),
              (''violations_found'', length violations),
              (''high_severity'', length high_severity_violations),
              (''medium_severity'', length medium_severity_violations)] \<rparr>)"

subsection \<open>\_generate\_recommendations\<close>

definition recommendation_for :: "violation \<Rightarrow> string" where
  "recommendation_for violation =
     (if v_type violation = ''missing_gfci'' then
        ''Install GFCI protection for outlets in wet locations (bathrooms, kitchens, garages, etc.)''
      else if v_type violation = ''potential_overcrowding'' then
        ''Verify junction box fill calculations per NEC 314.16 and consider larger box if needed''
      else if v_type violation = ''improper_grounding'' then
        ''Ensure proper grounding connections per NEC Article 250''
      else
        ''Address '' @ v_type violation @ '' - refer to '' @
          (case v_code_reference violation of None \<Rightarrow> ''NEC'' | Some r \<Rightarrow> r))"

fun recommend_loop :: "violation list \<Rightarrow> string list \<Rightarrow> string list" where
  "recommend_loop [] recommendations = recommendations"
| "recommend_loop (violation # rest) recommendations =
     recommend_loop rest (recommendations @ [recommendation_for violation])"

definition generate_recommendations :: "violation list \<Rightarrow> string list" where
  "generate_recommendations violations =
     (let recommendations = recommend_loop violations []
      in if violations = [] then
           recommendations @
             [''Installation appears to meet basic code requirements. Consider professional inspection for final verification.'']
         else recommendations)"

subsection \<open>preprocess\_image, detect\_components and analyze\_image\<close>

text \<open>
  What the file system holds at an image path: a file that the image library cannot open
  or decode (with the library's message), or an image of a given width and height. The
  pixel data is left out: the detector in the source is a fixed placeholder that does not
  read it, so the preprocessed array is represented by its shape.
\<close>

datatype image_file = Unreadable string | Readable nat nat

definition open_image :: "image_file \<Rightarrow> string + (nat \<times> nat)" where
  "open_image f = (case f of Unreadable e \<Rightarrow> Inl e | Readable w h \<Rightarrow> Inr (w, h))"

definition preprocess_image :: "image_file \<Rightarrow> string + nat list" where
  "preprocess_image image_path =
     (case open_image image_path of
        Inl e \<Rightarrow> Inl (''Error preprocessing image: '' @ e)
      | Inr dims \<Rightarrow> Inr [1, 224, 224, 3])"

definition detect_components :: "nat list \<Rightarrow> detection list" where
  "detect_components image_array =
     [\<lparr> c_type = ''outlet'',
        c_confidence = 92 / 100,
        c_bbox = [100, 150, 200, 250],
        c_properties = [''grounded'' \<mapsto> PBool True, ''gfci_protected'' \<mapsto> PBool False],
        c_id = None \<rparr>,
      \<lparr> c_type = ''switch'',
        c_confidence = 87 / 100,
        c_bbox = [300, 100, 350, 180],
        c_properties = [''type'' \<mapsto> PStr ''single_pole'', ''properly_wired'' \<mapsto> PBool True],
        c_id = None \<rparr>]"

text \<open>\<^verbatim>\<open>np.mean\<close> of a non-empty list of floats.\<close>

definition mean :: "real list \<Rightarrow> real" where
  "mean xs = sum_list xs / real (length xs)"

text \<open>
  The body of the \<^verbatim>\<open>try\<close> block of \<^verbatim>\<open>analyze_image\<close>: \<open>Inl\<close> carries the
  message of an exception raised inside it. \<open>now\<close> is the reading of
  \<^verbatim>\<open>tf.timestamp()\<close>. Loading the placeholder model handles its own exceptions and
  has no effect on the result, so it is left out.
\<close>

definition analyze_image_body :: "real \<Rightarrow> image_file \<Rightarrow> string + analysis" where
  "analyze_image_body now image_path =
     (case preprocess_image image_path of
        Inl e \<Rightarrow> Inl e
      | Inr image_array \<Rightarrow>
          let components = detect_components image_array;
              violations = check_code_violations components;
              assessment = calculate_overall_assessment components violations
          in case open_image image_path of
               Inl e \<Rightarrow> Inl e
             | Inr dims \<Rightarrow>
                 Inr \<lparr> r_detected_components = Some components,
                       r_violations_found = Some violations,
                       r_overall_result = Some (a_overall_result assessment),
                       r_confidence_scores =
                         \<lparr> overall_confidence = a_confidence assessment,
                           component_detection =
                             Some (if components \<noteq> [] then mean (map c_confidence components)
                                   else 0),
                           violation_detection =
                             Some (if violations \<noteq> [] then mean (map v_confidence violations)
                                   else 1) \<rparr>,
                       r_summary = a_summary assessment,
                       r_recommendations = generate_recommendations violations,
                       r_analysis_metadata =
                         Some \<lparr> model_version = ''1.0.0'',
                                analysis_timestamp = now,
                                image_dimensions = dims \<rparr>,
                       r_error = None \<rparr>)"

text \<open>The \<^verbatim>\<open>except Exception as e\<close> handler turns any exception into a record.\<close>

definition analyze_image :: "real \<Rightarrow> image_file \<Rightarrow> analysis" where
  "analyze_image now image_path =
     (case analyze_image_body now image_path of
        Inr analysis_result \<Rightarrow> analysis_result
      | Inl e \<Rightarrow>
          \<lparr> r_detected_components = Some [],
            r_violations_found = Some [],
            r_overall_result = Some ''error'',
            r_confidence_scores =
              \<lparr> overall_confidence = 0,
                component_detection = None,
                violation_detection = None \<rparr>,
            r_summary = [],
            r_recommendations = [],
            r_analysis_metadata = None,
            r_error = Some e \<rparr>)"

section \<open>VideoAnalysisService\<close>

subsection \<open>\_calculate\_video\_assessment\<close>

text \<open>\<^verbatim>\<open>frame['analysis'].get('overall_result', 'unknown')\<close>\<close>

definition get_overall_result :: "frame_analysis \<Rightarrow> string" where
  "get_overall_result frame =
     (case r_overall_result (frame_result frame) of None \<Rightarrow> ''unknown'' | Some r \<Rightarrow> r)"

definition calculate_video_assessment :: "frame_analysis list \<Rightarrow> string" where
  "calculate_video_assessment frame_analyses =
     (if frame_analyses = [] then ''error''
      else
        let results = map get_overall_result frame_analyses
        in if ''fail'' \<in> set results then ''fail''
           else if ''warning'' \<in> set results then ''warning''
           else if list_all (\<lambda>result. result = ''pass'') results then ''pass''
           else ''warning'')"

subsection \<open>extract\_key\_frames\<close>

text \<open>
  A video: the frames that successive reads return, each given as the image file it
  becomes once written to the temporary directory, and the frame rate that the video
  reports. A frame path is the frame count in the file name together with the file
  stored there.
\<close>

record video =
  vid_frames :: "image_file list"
  vid_fps :: real

text \<open>
  The capture handle of the video library (\<^verbatim>\<open>cv2.VideoCapture\<close>), which is not
  part of the repository: the video it was opened on and whether it is still open.
  \<^verbatim>\<open>cap.release()\<close> closes the handle. \<^verbatim>\<open>cap.get(cv2.CAP_PROP_FPS)\<close> returns the
  frame rate of the video on an open handle and, as the library does for every property of
  a capture that is not open, 0 on a closed one.
\<close>

record capture =
  cap_video :: video
  cap_opened :: bool

definition VideoCapture :: "video \<Rightarrow> capture" where
  "VideoCapture v = \<lparr> cap_video = v, cap_opened = True \<rparr>"

definition cap_release :: "capture \<Rightarrow> capture" where
  "cap_release cap = cap \<lparr> cap_opened := False \<rparr>"

definition cap_get_fps :: "capture \<Rightarrow> real" where
  "cap_get_fps cap = (if cap_opened cap then vid_fps (cap_video cap) else 0)"

type_synonym frame_path = "nat \<times> image_file"

definition frame_extraction_interval :: nat where
  "frame_extraction_interval = 30"

text \<open>
  The \<^verbatim>\<open>while True\<close> loop: it ends when a read returns no frame, that is, at the end
  of the frame list, so it is structural recursion on the frames left.
\<close>

fun extract_loop :: "image_file list \<Rightarrow> nat \<Rightarrow> frame_path list \<Rightarrow> frame_path list \<times> nat" where
  "extract_loop [] frame_count extracted_frames = (extracted_frames, frame_count)"
| "extract_loop (frame # rest) frame_count extracted_frames =
     (if frame_count mod frame_extraction_interval = 0
      then extract_loop rest (frame_count + 1) (extracted_frames @ [(frame_count, frame)])
      else extract_loop rest (frame_count + 1) extracted_frames)"

text \<open>
  The argument is \<open>Inl e\<close> when opening the capture, creating the directory or writing a
  frame raises; the handler then returns \<^verbatim>\<open>[], 0\<close>. Otherwise the steps are those
  of the source, in its order: open the capture, read the frames, release the capture,
  and only then ask it for the frame rate.
\<close>

definition extract_key_frames :: "string + video \<Rightarrow> frame_path list \<times> real" where
  "extract_key_frames video_path =
     (case video_path of
        Inl e \<Rightarrow> ([], 0)
      | Inr video \<Rightarrow>
          let cap = VideoCapture video;
              (extracted_frames, frame_count) = extract_loop (vid_frames (cap_video cap)) 0 [];
              cap = cap_release cap;
              fps = cap_get_fps cap;
              duration = (if fps > 0 then real frame_count / fps else 0)
          in (extracted_frames, duration))"

subsection \<open>analyze\_video\<close>

text \<open>
  The \<^verbatim>\<open>for i, frame_path in enumerate(frame_paths)\<close> loop with its three
  accumulators. \<open>clock i\<close> is the time stamp read while frame \<open>i\<close> is analysed.
  \<^verbatim>\<open>analyze_image\<close> returns a record on every input, so the per-frame handler and the
  outer handler of \<^verbatim>\<open>analyze_video\<close> have no branch here; deleting the temporary
  files does not change the returned value.
\<close>

fun analyze_frames ::
  "(nat \<Rightarrow> real) \<Rightarrow> frame_path list \<Rightarrow> nat \<Rightarrow>
   frame_analysis list \<times> detection list \<times> violation list \<Rightarrow>
   frame_analysis list \<times> detection list \<times> violation list" where
  "analyze_frames clock [] i acc = acc"
| "analyze_frames clock (frame_path # rest) i (frame_analyses, all_components, all_violations) =
     (let frame_analysis = analyze_image (clock i) (snd frame_path)
      in analyze_frames clock rest (i + 1)
           (frame_analyses @
              [\<lparr> frame_number = i * frame_extraction_interval,
                 timestamp = real (i * frame_extraction_interval) / 30,
                 frame_result = frame_analysis \<rparr>],
            all_components @
              (case r_detected_components frame_analysis of None \<Rightarrow> [] | Some cs \<Rightarrow> cs),
            all_violations @
              (case r_violations_found frame_analysis of None \<Rightarrow> [] | Some vs \<Rightarrow> vs)))"

definition analyze_video :: "(nat \<Rightarrow> real) \<Rightarrow> string + video \<Rightarrow> video_assessment" where
  "analyze_video clock video_path =
     (let (frame_paths, duration) = extract_key_frames video_path
      in if frame_paths = [] then
           \<lparr> va_frame_analyses = [],
             va_overall_result = ''error'',
             va_duration = 0,
             va_summary = [],
             va_error = Some ''Could not extract frames from video'' \<rparr>
         else
           let (frame_analyses, all_components, all_violations) =
                 analyze_frames clock frame_paths 0 ([], [], []);
               overall_result = calculate_video_assessment frame_analyses
           in \<lparr> va_frame_analyses = frame_analyses,
                va_overall_result = overall_result,
                va_duration = duration,
                va_summary =
                  [(''frames_analyzed'', length frame_analyses),
                   (''total_components'', length all_components),
                   (''total_violations'', length all_violations)],
                va_error = None \<rparr>)"

section \<open>CodeQueryService (services/code\_query\_service.py)\<close>

subsection \<open>Strings\<close>

text \<open>
  Query text is modelled as a list of 8-bit characters. Letter case, word characters and
  the regular expressions below are those of ASCII text; a character outside ASCII has no
  case and is not a word character here.
\<close>

definition lower_char :: "char \<Rightarrow> char" where
  "lower_char c =
     (case map_of (zip ''ABCDEFGHIJKLMNOPQRSTUVWXYZ'' ''abcdefghijklmnopqrstuvwxyz'') c of
        None \<Rightarrow> c
      | Some l \<Rightarrow> l)"

definition str_lower :: "string \<Rightarrow> string" where
  "str_lower s = map lower_char s"

fun starts_with :: "string \<Rightarrow> string \<Rightarrow> bool" where
  "starts_with [] s = True"
| "starts_with (p # ps) [] = False"
| "starts_with (p # ps) (c # cs) = (p = c \<and> starts_with ps cs)"

text \<open>Python's \<^verbatim>\<open>needle in haystack\<close> on strings.\<close>

fun str_in :: "string \<Rightarrow> string \<Rightarrow> bool" where
  "str_in needle [] = (needle = [])"
| "str_in needle (c # cs) = (starts_with needle (c # cs) \<or> str_in needle cs)"

subsection \<open>Regular expressions\<close>

text \<open>
  The fragment of Python's \<^verbatim>\<open>re\<close> syntax that the query patterns use, under the
  \<^verbatim>\<open>(?i)\<close> flag: a literal character matches in either case, \<^verbatim>\<open>.\<close> matches any
  character but a line feed. \<open>re_match\<close> is \<^verbatim>\<open>re.match\<close> read as a truth value: some
  prefix of the text is matched by the expression. It is computed with derivatives.
\<close>

datatype regex =
    Eps
  | Lit char
  | Dot
  | Seq regex regex
  | Alt regex regex
  | Star regex
  | Empty

fun nullable :: "regex \<Rightarrow> bool" where
  "nullable Eps = True"
| "nullable (Lit a) = False"
| "nullable Dot = False"
| "nullable (Seq r s) = (nullable r \<and> nullable s)"
| "nullable (Alt r s) = (nullable r \<or> nullable s)"
| "nullable (Star r) = True"
| "nullable Empty = False"

fun deriv :: "char \<Rightarrow> regex \<Rightarrow> regex" where
  "deriv c Eps = Empty"
| "deriv c (Lit a) = (if lower_char c = lower_char a then Eps else Empty)"
| "deriv c Dot = (if c = CHR 0x0A then Empty else Eps)"
| "deriv c (Seq r s) =
     (if nullable r then Alt (Seq (deriv c r) s) (deriv c s) else Seq (deriv c r) s)"
| "deriv c (Alt r s) = Alt (deriv c r) (deriv c s)"
| "deriv c (Star r) = Seq (deriv c r) (Star r)"
| "deriv c Empty = Empty"

fun re_match :: "regex \<Rightarrow> string \<Rightarrow> bool" where
  "re_match r [] = nullable r"
| "re_match r (c # cs) = (nullable r \<or> re_match (deriv c r) cs)"

text \<open>A word of the pattern, and \<^verbatim>\<open>(?:a|b|...)\<close>.\<close>

fun word :: "string \<Rightarrow> regex" where
  "word [] = Eps"
| "word (c # cs) = Seq (Lit c) (word cs)"

fun one_of :: "string list \<Rightarrow> regex" where
  "one_of [] = Empty"
| "one_of [w] = word w"
| "one_of (w # ws) = Alt (word w) (one_of ws)"

text \<open>\<^verbatim>\<open>(?i).*(?:a1|a2|...).*(?:b1|b2|...).*\<close>, the shape of all four patterns.\<close>

definition two_groups :: "string list \<Rightarrow> string list \<Rightarrow> regex" where
  "two_groups as bs =
     Seq (Star Dot) (Seq (one_of as) (Seq (Star Dot) (Seq (one_of bs) (Star Dot))))"

subsection \<open>The service object\<close>

record nec_section =
  s_title :: string
  s_content :: string
  s_subsections :: "(string \<times> string) list option"
  s_keywords :: "string list option"

record query_pattern =
  p_pattern :: regex
  p_response_template :: string
  p_primary_reference :: string

text \<open>
  \<^verbatim>\<open>self\<close>: the code table, a dictionary kept as an association list in insertion
  order, and the pattern list.
\<close>

record code_query_service =
  nec_database :: "(string \<times> nec_section) list"
  common_patterns :: "query_pattern list"

record reference =
  ref_section :: string
  ref_title :: string
  ref_relevance :: real

record query_response =
  q_response :: string
  q_references :: "reference list"
  q_confidence :: real
  q_error :: "string option"

record pattern_match =
  pm_response :: string
  pm_primary_reference :: string
  pm_confidence :: real

definition initialize_nec_database :: "(string \<times> nec_section) list" where
  "initialize_nec_database =
     [(''210.8'',
       \<lparr> s_title = ''Ground-Fault Circuit-Interrupter Protection for Personnel'',
         s_content = ''Ground-fault circuit-interrupter protection for personnel shall be provided as required in 210.8(A) through (F). The ground-fault circuit-interrupter shall be installed in a readily accessible location.'',
         s_subsections = Some
           [(''210.8(A)'', ''Dwelling Units. All 125-volt, single-phase, 15- and 20-ampere receptacles installed in bathrooms, garages, outdoors, crawl spaces, basements, kitchens, and other specified locations shall have ground-fault circuit-interrupter protection for personnel.''),
            (''210.8(B)'', ''Other Than Dwelling Units. All 125-volt, single-phase, 15-, 20-, and 30-ampere receptacles installed in bathrooms, kitchens, rooftops, outdoors, and other specified locations shall have ground-fault circuit-interrupter protection for personnel.'')],
         s_keywords = Some [''gfci'', ''ground fault'', ''protection'', ''bathroom'', ''kitchen'', ''garage'', ''outdoor'', ''basement''] \<rparr>),
      (''250.66'',
       \<lparr> s_title = ''Size of Alternating-Current Grounding Electrode Conductor'',
         s_content = ''The size of the grounding electrode conductor of a grounded or ungrounded ac system shall not be less than given in Table 250.66, except as permitted in 250.66(A) through (C).'',
         s_subsections = None,
         s_keywords = Some [''grounding'', ''electrode'', ''conductor'', ''size'', ''table''] \<rparr>),
      (''314.16'',
       \<lparr> s_title = ''Number of Conductors in Outlet, Device, and Junction Boxes, and Conduit Bodies'',
         s_content = ''Boxes and conduit bodies shall be of sufficient size to provide free space for all enclosed conductors. In no case shall the volume of the box, as calculated in 314.16(A), be less than the fill calculation as calculated in 314.16(B).'',
         s_subsections = None,
         s_keywords = Some [''box fill'', ''conductors'', ''junction box'', ''outlet box'', ''volume'', ''calculation''] \<rparr>),
      (''240.21'',
       \<lparr> s_title = ''Location in Circuit'',
         s_content = ''Overcurrent protection shall be provided in each ungrounded conductor and shall be located at the point where the conductor to be protected receives its supply except as specified in 240.21(A) through (H).'',
         s_subsections = None,
         s_keywords = Some [''overcurrent'', ''protection'', ''breaker'', ''fuse'', ''conductor''] \<rparr>),
      (''110.26'',
       \<lparr> s_title = ''Spaces About Electrical Equipment'',
         s_content = ''Sufficient access and working space shall be provided and maintained about all electrical equipment to permit ready and safe operation and maintenance of such equipment.'',
         s_subsections = None,
         s_keywords = Some [''clearance'', ''working space'', ''electrical equipment'', ''panel'', ''access''] \<rparr>)]"

definition initialize_query_patterns :: "query_pattern list" where
  "initialize_query_patterns =
     [\<lparr> p_pattern = two_groups [''gfci''] [''required'', ''need'', ''install''],
        p_response_template = ''GFCI protection is required in specific locations per NEC 210.8. For dwelling units, GFCI protection is required for 125-volt, 15- and 20-ampere receptacles in: bathrooms, garages, outdoors, crawl spaces, unfinished basements, kitchens (countertop receptacles), laundry areas, utility rooms, and within 6 feet of sinks.'',
        p_primary_reference = ''210.8'' \<rparr>,
      \<lparr> p_pattern = two_groups [''grounding'', ''ground''] [''size'', ''conductor'', ''wire''],
        p_response_template = ''The size of the grounding electrode conductor is determined by NEC Table 250.66, which bases the size on the largest ungrounded service-entrance conductor or equivalent area for parallel conductors.'',
        p_primary_reference = ''250.66'' \<rparr>,
      \<lparr> p_pattern =
          two_groups [''box fill'', ''junction box'', ''outlet box'']
            [''calculation'', ''size'', ''conductors''],
        p_response_template = ''Box fill calculations are covered in NEC 314.16. Each conductor, device, and fitting counts toward the box fill. The total volume must not exceed the box's rated capacity. Use Table 314.16(A) for standard box volumes and Table 314.16(B) for conductor volumes.'',
        p_primary_reference = ''314.16'' \<rparr>,
      \<lparr> p_pattern =
          two_groups [''clearance'', ''working space'', ''panel''] [''distance'', ''feet'', ''inches''],
        p_response_template = ''Working space requirements are specified in NEC 110.26. Generally, a minimum of 3 feet of clear working space is required in front of electrical equipment rated 600 volts or less. The width shall be at least 30 inches or the width of the equipment, whichever is greater.'',
        p_primary_reference = ''110.26'' \<rparr>]"

text \<open>\<^verbatim>\<open>__init__\<close>\<close>

definition init_service :: code_query_service where
  "init_service =
     \<lparr> nec_database = initialize_nec_database,
       common_patterns = initialize_query_patterns \<rparr>"

subsection \<open>\_extract\_keywords\<close>

definition stop_words :: "string list" where
  "stop_words =
     [''the'', ''a'', ''an'', ''and'', ''or'', ''but'', ''in'', ''on'', ''at'', ''to'', ''for'',
      ''of'', ''with'', ''by'', ''is'', ''are'', ''was'', ''were'', ''be'', ''been'', ''have'',
      ''has'', ''had'', ''do'', ''does'', ''did'', ''will'', ''would'', ''could'', ''should'',
      ''may'', ''might'', ''must'', ''can'', ''what'', ''when'', ''where'', ''why'', ''how'']"

definition is_word_char :: "char \<Rightarrow> bool" where
  "is_word_char c =
     (c \<in> set ''abcdefghijklmnopqrstuvwxyzABCDEFGHIJKLMNOPQRSTUVWXYZ0123456789_'')"

text \<open>
  \<^verbatim>\<open>re.findall(r'\b\w+\b', text)\<close>: the maximal runs of word characters, in order.
  The second argument is the run being read.
\<close>

fun find_words :: "string \<Rightarrow> string \<Rightarrow> string list" where
  "find_words [] cur = (if cur = [] then [] else [cur])"
| "find_words (c # cs) cur =
     (if is_word_char c then find_words cs (cur @ [c])
      else if cur = [] then find_words cs []
      else cur # find_words cs [])"

definition extract_keywords :: "string \<Rightarrow> string list" where
  "extract_keywords query =
     (let words = find_words (str_lower query) []
      in filter (\<lambda>word. word \<notin> set stop_words \<and> length word > 2) words)"

subsection \<open>\_search\_nec\_sections\<close>

text \<open>
  The two nested loops that add to \<^verbatim>\<open>score\<close>, with the branches in the order of the
  source: the substring test comes first and the equality test is its \<^verbatim>\<open>elif\<close>.
\<close>

fun score_section_keywords :: "string \<Rightarrow> string list \<Rightarrow> nat \<Rightarrow> nat" where
  "score_section_keywords keyword [] score = score"
| "score_section_keywords keyword (section_keyword # rest) score =
     (if str_in keyword section_keyword \<or> str_in section_keyword keyword
      then score_section_keywords keyword rest (score + 1)
      else if keyword = section_keyword
      then score_section_keywords keyword rest (score + 2)
      else score_section_keywords keyword rest score)"

fun score_keywords :: "string list \<Rightarrow> string list \<Rightarrow> nat \<Rightarrow> nat" where
  "score_keywords [] section_keywords score = score"
| "score_keywords (keyword # rest) section_keywords score =
     score_keywords rest section_keywords
       (score_section_keywords keyword section_keywords score)"

text \<open>\<^verbatim>\<open>section_data.get('keywords', [])\<close>\<close>

definition get_keywords :: "nec_section \<Rightarrow> string list" where
  "get_keywords section_data = (case s_keywords section_data of None \<Rightarrow> [] | Some ks \<Rightarrow> ks)"

text \<open>
  The score that the loop body computes for one table entry, before the test
  \<^verbatim>\<open>score > 0\<close>, and its normalised value. The division is only evaluated for a
  positive score, which needs both lists non-empty.
\<close>

definition section_score :: "string list \<Rightarrow> nec_section \<Rightarrow> nat" where
  "section_score keywords section_data =
     score_keywords keywords (get_keywords section_data) 0"

definition normalized_score :: "string list \<Rightarrow> nec_section \<Rightarrow> real" where
  "normalized_score keywords section_data =
     real (section_score keywords section_data) /
       real (length keywords + length (get_keywords section_data))"

fun search_loop ::
  "(string \<times> nec_section) list \<Rightarrow> string list \<Rightarrow> (string \<times> real) list \<Rightarrow>
   (string \<times> real) list" where
  "search_loop [] keywords matches = matches"
| "search_loop ((section_id, section_data) # rest) keywords matches =
     (if section_score keywords section_data > 0
      then search_loop rest keywords
             (matches @ [(section_id, normalized_score keywords section_data)])
      else search_loop rest keywords matches)"

text \<open>
  \<^verbatim>\<open>matches.sort(key=lambda x: x[1], reverse=True)\<close> is a stable sort by descending
  score, as is \<open>sort_key\<close> on the negated score.
\<close>

definition search_nec_sections :: "code_query_service \<Rightarrow> string list \<Rightarrow> (string \<times> real) list" where
  "search_nec_sections self keywords =
     (let matches = search_loop (nec_database self) keywords [];
          matches = sort_key (\<lambda>x. - snd x) matches
      in take 3 matches)"

subsection \<open>\_match\_query\_patterns\<close>

fun match_query_patterns_loop :: "query_pattern list \<Rightarrow> string \<Rightarrow> pattern_match option" where
  "match_query_patterns_loop [] query = None"
| "match_query_patterns_loop (pattern_data # rest) query =
     (if re_match (p_pattern pattern_data) query
      then Some \<lparr> pm_response = p_response_template pattern_data,
                  pm_primary_reference = p_primary_reference pattern_data,
                  pm_confidence = 85 / 100 \<rparr>
      else match_query_patterns_loop rest query)"

definition match_query_patterns :: "code_query_service \<Rightarrow> string \<Rightarrow> pattern_match option" where
  "match_query_patterns self query = match_query_patterns_loop (common_patterns self) query"

subsection \<open>\_generate\_response\<close>

text \<open>
  \<^verbatim>\<open>self.nec_database[section_id]\<close>: the entry, or a \<^verbatim>\<open>KeyError\<close> whose text is
  the quoted key.
\<close>

definition lookup_section :: "code_query_service \<Rightarrow> string \<Rightarrow> string + nec_section" where
  "lookup_section self section_id =
     (case map_of (nec_database self) section_id of
        None \<Rightarrow> Inl ([CHR 0x27] @ section_id @ [CHR 0x27])
      | Some section_data \<Rightarrow> Inr section_data)"

text \<open>The loop over the subsections of the primary section.\<close>

fun subsections_loop ::
  "(string \<times> string) list \<Rightarrow> nec_section \<Rightarrow> real \<Rightarrow> string list \<times> reference list \<Rightarrow>
   string list \<times> reference list" where
  "subsections_loop [] primary_data primary_relevance acc = acc"
| "subsections_loop ((subsection_id, subsection_content) # rest) primary_data primary_relevance
     (response_parts, references) =
     subsections_loop rest primary_data primary_relevance
       (response_parts @ [[CHR 0x0A, CHR 0x0A] @ subsection_id @ '': '' @ subsection_content],
        references @
          [\<lparr> ref_section = subsection_id,
             ref_title = s_title primary_data @ '' - Subsection'',
             ref_relevance = primary_relevance * (9 / 10) \<rparr>])"

text \<open>The loop over \<^verbatim>\<open>relevant_sections[1:]\<close>.\<close>

fun additional_loop ::
  "code_query_service \<Rightarrow> (string \<times> real) list \<Rightarrow> string list \<times> reference list \<Rightarrow>
   string + (string list \<times> reference list)" where
  "additional_loop self [] acc = Inr acc"
| "additional_loop self ((section_id, score) # rest) (response_parts, references) =
     (case lookup_section self section_id of
        Inl e \<Rightarrow> Inl e
      | Inr section_data \<Rightarrow>
          additional_loop self rest
            (response_parts @
               [[CHR 0x0A, CHR 0x0A] @ ''Also see NEC '' @ section_id @ '' ('' @
                  s_title section_data @ '') for related requirements.''],
             references @
               [\<lparr> ref_section = section_id,
                  ref_title = s_title section_data,
                  ref_relevance = score \<rparr>]))"

definition generate_response ::
  "code_query_service \<Rightarrow> string \<Rightarrow> (string \<times> real) list \<Rightarrow> string + query_response" where
  "generate_response self query relevant_sections =
     (case relevant_sections of
        [] \<Rightarrow>
          Inr \<lparr> q_response = ''I couldn't find specific information about your query in my current database. Please refer to the official NEC code book or consult with a licensed electrician for detailed guidance.'',
                q_references = [],
                q_confidence = 1 / 10,
                q_error = None \<rparr>
      | (primary_section, primary_relevance) # others \<Rightarrow>
          (case lookup_section self primary_section of
             Inl e \<Rightarrow> Inl e
           | Inr primary_data \<Rightarrow>
               let response_parts =
                     [''According to NEC '' @ primary_section @ '' ('' @ s_title primary_data @
                        ''): '' @ s_content primary_data];
                   references =
                     [\<lparr> ref_section = primary_section,
                        ref_title = s_title primary_data,
                        ref_relevance = primary_relevance \<rparr>];
                   (response_parts, references) =
                     (case s_subsections primary_data of
                        None \<Rightarrow> (response_parts, references)
                      | Some subsections \<Rightarrow>
                          subsections_loop subsections primary_data primary_relevance
                            (response_parts, references))
               in case additional_loop self others (response_parts, references) of
                    Inl e \<Rightarrow> Inl e
                  | Inr (response_parts, references) \<Rightarrow>
                      Inr \<lparr> q_response = concat response_parts,
                            q_references = references,
                            q_confidence = min (primary_relevance * (12 / 10)) (95 / 100),
                            q_error = None \<rparr>))"

subsection \<open>\_enhance\_response\_with\_context\<close>

text \<open>The three advisory paragraphs; their leading pictographs are given as UTF-8 bytes.\<close>

definition practical_tip :: string where
  "practical_tip =
     [CHR 0x0A, CHR 0x0A, CHR 0xF0, CHR 0x9F, CHR 0x92, CHR 0xA1] @
     '' Practical Tip: Always verify local code requirements as they may be more restrictive than the NEC. Consider consulting with a licensed electrician for complex installations.''"

definition safety_note :: string where
  "safety_note =
     [CHR 0x0A, CHR 0x0A, CHR 0xE2, CHR 0x9A, CHR 0xA0, CHR 0xEF, CHR 0xB8, CHR 0x8F] @
     '' Safety Note: GFCI devices should be tested monthly using the TEST and RESET buttons to ensure proper operation.''"

definition sizing_note :: string where
  "sizing_note =
     [CHR 0x0A, CHR 0x0A, CHR 0xF0, CHR 0x9F, CHR 0x93, CHR 0x8F] @
     '' Sizing Note: Always consider voltage drop calculations for long wire runs and ensure proper derating for multiple conductors in conduit.''"

text \<open>\<^verbatim>\<open>any(keyword in query.lower() for keyword in [...])\<close>\<close>

definition any_keyword_in :: "string list \<Rightarrow> string \<Rightarrow> bool" where
  "any_keyword_in keywords query = list_ex (\<lambda>keyword. str_in keyword (str_lower query)) keywords"

definition enhance_response_with_context :: "query_response \<Rightarrow> string \<Rightarrow> query_response" where
  "enhance_response_with_context response_data query =
     (let enhanced_response = q_response response_data;
          enhanced_response =
            (if any_keyword_in [''install'', ''installation'', ''how to''] query
             then enhanced_response @ practical_tip else enhanced_response);
          enhanced_response =
            (if any_keyword_in [''gfci'', ''ground fault''] query
             then enhanced_response @ safety_note else enhanced_response);
          enhanced_response =
            (if any_keyword_in [''wire size'', ''conductor size'', ''ampacity''] query
             then enhanced_response @ sizing_note else enhanced_response)
      in response_data \<lparr> q_response := enhanced_response \<rparr>)"

subsection \<open>process\_query\<close>

text \<open>
  The only step of the \<^verbatim>\<open>try\<close> block that can raise is the response generation; the
  handler turns its exception into the apologetic response.
\<close>

definition process_query :: "code_query_service \<Rightarrow> string \<Rightarrow> query_response" where
  "process_query self query =
     (case match_query_patterns self query of
        Some pattern_match \<Rightarrow>
          let section_data = map_of (nec_database self) (pm_primary_reference pattern_match)
          in enhance_response_with_context
               \<lparr> q_response = pm_response pattern_match,
                 q_references =
                   [\<lparr> ref_section = pm_primary_reference pattern_match,
                      ref_title =
                        (case section_data of None \<Rightarrow> ''NEC Section'' | Some d \<Rightarrow> s_title d),
                      ref_relevance = pm_confidence pattern_match \<rparr>],
                 q_confidence = pm_confidence pattern_match,
                 q_error = None \<rparr> query
      | None \<Rightarrow>
          let keywords = extract_keywords query
          in if keywords = [] then
               \<lparr> q_response = ''I need more specific information to help you. Please ask about specific electrical components, installations, or code requirements.'',
                 q_references = [],
                 q_confidence = 1 / 10,
                 q_error = None \<rparr>
             else
               let relevant_sections = search_nec_sections self keywords
               in case generate_response self query relevant_sections of
                    Inr response_data \<Rightarrow> enhance_response_with_context response_data query
                  | Inl e \<Rightarrow>
                      \<lparr> q_response = ''I encountered an error processing your query: '' @ e @
                          ''. Please try rephrasing your question or refer to the official NEC code book.'',
                        q_references = [],
                        q_confidence = 0,
                        q_error = Some e \<rparr>)"

section \<open>Notions used to state the properties\<close>

text \<open>
  The number of violations of severity high and of severity medium, and the decision
  ladder as a function of these two numbers alone.
\<close>

definition high_count :: "violation list \<Rightarrow> nat" where
  "high_count violations = length (filter (\<lambda>v. v_severity v = ''high'') violations)"

definition medium_count :: "violation list \<Rightarrow> nat" where
  "medium_count violations = length (filter (\<lambda>v. v_severity v = ''medium'') violations)"

definition ladder :: "nat \<Rightarrow> nat \<Rightarrow> string \<times> real" where
  "ladder high medium =
     (if high \<ge> 1 then (''fail'', 85 / 100)
      else if medium > 2 then (''warning'', 70 / 100)
      else (''pass'', 90 / 100))"

text \<open>
  The \<^verbatim>\<open>gfci_protected\<close> property of a detection is absent, or present with a false
  truth value.
\<close>

definition gfci_false_or_absent :: "detection \<Rightarrow> bool" where
  "gfci_false_or_absent c =
     (case c_properties c ''gfci_protected'' of None \<Rightarrow> True | Some v \<Rightarrow> \<not> truthy v)"

text \<open>A frame assessment with a given overall result (\<open>None\<close>: the result is missing).\<close>

definition frame_with :: "string option \<Rightarrow> frame_analysis" where
  "frame_with res =
     \<lparr> frame_number = 0, timestamp = 0,
       frame_result =
         \<lparr> r_detected_components = Some [], r_violations_found = Some [],
           r_overall_result = res,
           r_confidence_scores =
             \<lparr> overall_confidence = 0, component_detection = None, violation_detection = None \<rparr>,
           r_summary = [], r_recommendations = [], r_analysis_metadata = None,
           r_error = None \<rparr> \<rparr>"

text \<open>
  The rule engine on a junction box, an outlet without the property and a switch: the
  list is covered by the theorem's cases and has one violation of each kind.
\<close>

definition sample_detections :: "detection list" where
  "sample_detections =
     [\<lparr> c_type = ''junction_box'', c_confidence = 8 / 10, c_bbox = [0, 0, 10, 10],
        c_properties = Map.empty, c_id = Some ''j1'' \<rparr>,
      \<lparr> c_type = ''outlet'', c_confidence = 9 / 10, c_bbox = [5, 5, 20, 20],
        c_properties = [''grounded'' \<mapsto> PBool True], c_id = None \<rparr>,
      \<lparr> c_type = ''switch'', c_confidence = 7 / 10, c_bbox = [1, 2, 3, 4],
        c_properties = Map.empty, c_id = None \<rparr>]"

text \<open>
  Two violations, one of a mapped kind and one of an unmapped kind without a reference.
\<close>

definition sample_violations :: "violation list" where
  "sample_violations =
     [potential_overcrowding_violation (sample_detections ! 0),
      \<lparr> v_type = ''safety_hazard'', v_severity = ''low'', v_description = ''exposed splice'',
        v_code_reference = None, v_component_id = None, v_confidence = 1 / 2 \<rparr>]"

text \<open>
  The record that the frame loop appends for the frame path \<open>p\<close> at position \<open>j\<close>.
\<close>

definition frame_record :: "(nat \<Rightarrow> real) \<Rightarrow> nat \<Rightarrow> frame_path \<Rightarrow> frame_analysis" where
  "frame_record clock j p =
     \<lparr> frame_number = j * frame_extraction_interval,
       timestamp = real (j * frame_extraction_interval) / 30,
       frame_result = analyze_image (clock j) (snd p) \<rparr>"

text \<open>
  The duration in the words of the specification: the number of frames divided by the
  frame rate that the video reports, and 0 when that rate is not positive.
\<close>

definition spec_duration :: "video \<Rightarrow> real" where
  "spec_duration v =
     (if vid_fps v > 0 then real (length (vid_frames v)) / vid_fps v else 0)"

text \<open>A video of 60 frames that reports 30 frames per second.\<close>

definition sample_video :: video where
  "sample_video = \<lparr> vid_frames = replicate 60 (Readable 640 480), vid_fps = 30 \<rparr>"

text \<open>
  The relevance score in the words of the specification: a pair of a query token and an
  entry keyword counts 2 when the two are equal, 1 when one is a substring of the other
  and they differ, and 0 otherwise; the sum over all pairs is divided by the number of
  tokens plus the number of keywords.
\<close>

definition spec_pair_score :: "string \<Rightarrow> string \<Rightarrow> nat" where
  "spec_pair_score token keyword =
     (if token = keyword then 2
      else if str_in token keyword \<or> str_in keyword token then 1
      else 0)"

definition spec_score :: "string list \<Rightarrow> string list \<Rightarrow> real" where
  "spec_score tokens keywords =
     real (sum_list (map (\<lambda>token. sum_list (map (spec_pair_score token) keywords)) tokens)) /
       real (length tokens + length keywords)"

text \<open>The first entry of the pattern list, the pattern for questions on GFCI.\<close>

definition gfci_fast_path :: query_pattern where
  "gfci_fast_path = initialize_query_patterns ! 0"

text \<open>
  The citations of a composed response: the subsections of an entry, the title of an entry
  of the table, the citation of a subsection of the primary entry and the citation of a
  further match.
\<close>

definition subsections_of :: "nec_section \<Rightarrow> (string \<times> string) list" where
  "subsections_of d = (case s_subsections d of None \<Rightarrow> [] | Some subsections \<Rightarrow> subsections)"

definition title_of :: "code_query_service \<Rightarrow> string \<Rightarrow> string" where
  "title_of self section_id =
     (case map_of (nec_database self) section_id of None \<Rightarrow> [] | Some d \<Rightarrow> s_title d)"

definition subsection_reference :: "nec_section \<Rightarrow> real \<Rightarrow> string \<times> string \<Rightarrow> reference" where
  "subsection_reference primary_data primary_relevance sub =
     \<lparr> ref_section = fst sub,
       ref_title = s_title primary_data @ '' - Subsection'',
       ref_relevance = 9 / 10 * primary_relevance \<rparr>"

definition match_reference :: "code_query_service \<Rightarrow> string \<times> real \<Rightarrow> reference" where
  "match_reference self m =
     \<lparr> ref_section = fst m, ref_title = title_of self (fst m), ref_relevance = snd m \<rparr>"

text \<open>A ranked match list whose primary entry has subsections.\<close>

definition sample_matches :: "(string \<times> real) list" where
  "sample_matches = [(''210.8'', 9 / 10), (''240.21'', 1 / 7)]"

section \<open>Violation rule engine\<close>

lemma check_loop_acc: "check_loop cs acc = acc @ check_loop cs []"
proof (induction cs arbitrary: acc)
  case Nil
  show ?case by simp
next
  case (Cons c cs)
  have a: "check_loop cs (acc @ [v]) = acc @ [v] @ check_loop cs []" for v
    using Cons.IH [of "acc @ [v]"] by simp
  have b: "check_loop cs [v] = [v] @ check_loop cs []" for v
    using Cons.IH [of "[v]"] by simp
  show ?case
    by (simp add: a) (simp add: b Cons.IH [of acc])
qed

lemma check_code_violations_Cons:
  "check_code_violations (c # cs) = check_code_violations [c] @ check_code_violations cs"
  unfolding check_code_violations_def
  by (subst check_loop.simps(2), subst (1 2 3) check_loop_acc) simp

lemma check_code_violations_concat:
  "check_code_violations cs = concat (map (\<lambda>c. check_code_violations [c]) cs)"
proof (induction cs)
  case Nil
  show ?case by (simp add: check_code_violations_def)
next
  case (Cons c cs)
  show ?case
    by (subst check_code_violations_Cons) (simp add: Cons.IH [symmetric])
qed

lemma gfci_false_or_absent_iff: "gfci_false_or_absent c = (\<not> truthy (get_gfci_protected c))"
  by (simp add: gfci_false_or_absent_def get_gfci_protected_def split: option.splits)

lemma check_single:
  "check_code_violations [c] =
     (if c_type c = ''outlet'' \<and> gfci_false_or_absent c then [missing_gfci_violation c]
      else if c_type c = ''junction_box'' then [potential_overcrowding_violation c]
      else [])"
  by (simp add: check_code_violations_def gfci_false_or_absent_iff)

lemma count_missing_gfci:
  "length (filter (\<lambda>v. v_type v = ''missing_gfci'') (check_code_violations cs)) =
   length (filter (\<lambda>c. c_type c = ''outlet'' \<and> gfci_false_or_absent c) cs)"
proof (induction cs)
  case Nil
  show ?case by (simp add: check_code_violations_def)
next
  case (Cons c cs)
  show ?case
    by (subst check_code_violations_Cons)
       (simp add: Cons.IH check_single missing_gfci_violation_def
          potential_overcrowding_violation_def)
qed

lemma count_potential_overcrowding:
  "length (filter (\<lambda>v. v_type v = ''potential_overcrowding'') (check_code_violations cs)) =
   length (filter (\<lambda>c. c_type c = ''junction_box'') cs)"
proof (induction cs)
  case Nil
  show ?case by (simp add: check_code_violations_def)
next
  case (Cons c cs)
  show ?case
    by (subst check_code_violations_Cons)
       (simp add: Cons.IH check_single missing_gfci_violation_def
          potential_overcrowding_violation_def)
qed

text \<open>
  C4. The violations of a detection list are the violations of its detections, one after
  the other. An outlet whose \<^verbatim>\<open>gfci_protected\<close> property is false or absent gives
  exactly one violation, of kind \<^verbatim>\<open>missing_gfci\<close> and severity high; any other outlet
  gives none; a junction box gives exactly one violation, of kind
  \<^verbatim>\<open>potential_overcrowding\<close> and severity medium, whatever its properties; a detection
  of any other type gives none. So the list holds as many \<^verbatim>\<open>missing_gfci\<close> violations
  as there are such outlets and as many \<^verbatim>\<open>potential_overcrowding\<close> violations as
  there are junction boxes.
\<close>

theorem rule_engine_per_detection:
  "check_code_violations cs = concat (map (\<lambda>c. check_code_violations [c]) cs)
   \<and> (c_type c = ''outlet'' \<and> gfci_false_or_absent c \<longrightarrow>
        (\<exists>v. check_code_violations [c] = [v] \<and> v_type v = ''missing_gfci''
              \<and> v_severity v = ''high''))
   \<and> (c_type c = ''outlet'' \<and> \<not> gfci_false_or_absent c \<longrightarrow> check_code_violations [c] = [])
   \<and> (c_type c = ''junction_box'' \<longrightarrow>
        (\<exists>v. check_code_violations [c] = [v] \<and> v_type v = ''potential_overcrowding''
              \<and> v_severity v = ''medium''))
   \<and> (c_type c \<noteq> ''outlet'' \<and> c_type c \<noteq> ''junction_box'' \<longrightarrow>
        check_code_violations [c] = [])
   \<and> length (filter (\<lambda>v. v_type v = ''missing_gfci'') (check_code_violations cs)) =
       length (filter (\<lambda>c. c_type c = ''outlet'' \<and> gfci_false_or_absent c) cs)
   \<and> length (filter (\<lambda>v. v_type v = ''potential_overcrowding'') (check_code_violations cs)) =
       length (filter (\<lambda>c. c_type c = ''junction_box'') cs)"
proof -
  have 1: "check_code_violations cs = concat (map (\<lambda>c. check_code_violations [c]) cs)"
    by (rule check_code_violations_concat)
  have 2: "c_type c = ''outlet'' \<and> gfci_false_or_absent c \<longrightarrow>
        (\<exists>v. check_code_violations [c] = [v] \<and> v_type v = ''missing_gfci''
              \<and> v_severity v = ''high'')"
    by (simp add: check_single missing_gfci_violation_def)
  have 3: "c_type c = ''outlet'' \<and> \<not> gfci_false_or_absent c \<longrightarrow> check_code_violations [c] = []"
    by (simp add: check_single)
  have 4: "c_type c = ''junction_box'' \<longrightarrow>
        (\<exists>v. check_code_violations [c] = [v] \<and> v_type v = ''potential_overcrowding''
              \<and> v_severity v = ''medium'')"
    by (simp add: check_single potential_overcrowding_violation_def)
  have 5: "c_type c \<noteq> ''outlet'' \<and> c_type c \<noteq> ''junction_box'' \<longrightarrow>
        check_code_violations [c] = []"
    by (simp add: check_single)
  note 6 = count_missing_gfci [of cs] and 7 = count_potential_overcrowding [of cs]
  from 1 2 3 4 5 6 7 show ?thesis by blast
qed

theorem rule_engine_per_detection_witness:
  "c_type (sample_detections ! 1) = ''outlet'' \<and> gfci_false_or_absent (sample_detections ! 1)
   \<and> c_type (sample_detections ! 0) = ''junction_box''
   \<and> (\<exists>v. check_code_violations [sample_detections ! 1] = [v] \<and> v_type v = ''missing_gfci''
            \<and> v_severity v = ''high'')
   \<and> length (filter (\<lambda>v. v_type v = ''missing_gfci'') (check_code_violations sample_detections))
       = 1
   \<and> length (filter (\<lambda>v. v_type v = ''potential_overcrowding'')
               (check_code_violations sample_detections)) = 1"
proof -
  have h1: "c_type (sample_detections ! 1) = ''outlet'' \<and>
            gfci_false_or_absent (sample_detections ! 1)"
    by (simp add: sample_detections_def gfci_false_or_absent_def)
  have h2: "c_type (sample_detections ! 0) = ''junction_box''"
    by (simp add: sample_detections_def)
  have h3: "length (filter (\<lambda>c. c_type c = ''outlet'' \<and> gfci_false_or_absent c)
              sample_detections) = 1"
    by (simp add: sample_detections_def gfci_false_or_absent_def)
  have h4: "length (filter (\<lambda>c. c_type c = ''junction_box'') sample_detections) = 1"
    by (simp add: sample_detections_def)
  note t = rule_engine_per_detection [of sample_detections "sample_detections ! 1"]
  from t h1 have a: "\<exists>v. check_code_violations [sample_detections ! 1] = [v] \<and>
      v_type v = ''missing_gfci'' \<and> v_severity v = ''high''"
    by blast
  from t have "length (filter (\<lambda>v. v_type v = ''missing_gfci'')
      (check_code_violations sample_detections)) =
      length (filter (\<lambda>c. c_type c = ''outlet'' \<and> gfci_false_or_absent c) sample_detections)"
    by (elim conjE)
  with h3 have b: "length (filter (\<lambda>v. v_type v = ''missing_gfci'')
      (check_code_violations sample_detections)) = 1"
    by (simp only:)
  from t have "length (filter (\<lambda>v. v_type v = ''potential_overcrowding'')
      (check_code_violations sample_detections)) =
      length (filter (\<lambda>c. c_type c = ''junction_box'') sample_detections)"
    by (elim conjE)
  with h4 have c: "length (filter (\<lambda>v. v_type v = ''potential_overcrowding'')
      (check_code_violations sample_detections)) = 1"
    by (simp only:)
  from h1 h2 a b c show ?thesis by blast
qed

section \<open>Assessment aggregator\<close>

text \<open>
  C2. The overall result and its confidence are the value of the ladder at the number of
  high-severity and the number of medium-severity violations: fail with 0.85 when there
  is at least one high-severity violation, otherwise warning with 0.70 when there are more
  than two medium-severity violations, otherwise pass with 0.90. Hence two calls whose
  violation lists agree on both numbers give the same result and confidence, whatever the
  detections and the other fields of the violations.
\<close>

theorem assessment_ladder:
  "(a_overall_result (calculate_overall_assessment components violations),
    a_confidence (calculate_overall_assessment components violations))
     = ladder (high_count violations) (medium_count violations)
   \<and> (high_count violations = high_count violations' \<and>
      medium_count violations = medium_count violations' \<longrightarrow>
        a_overall_result (calculate_overall_assessment components violations) =
          a_overall_result (calculate_overall_assessment components' violations')
        \<and> a_confidence (calculate_overall_assessment components violations) =
          a_confidence (calculate_overall_assessment components' violations'))"
proof -
  have l: "(a_overall_result (calculate_overall_assessment cs vs),
            a_confidence (calculate_overall_assessment cs vs))
           = ladder (high_count vs) (medium_count vs)" for cs vs
    by (simp add: calculate_overall_assessment_def Let_def ladder_def high_count_def
          medium_count_def Suc_le_eq)
  show ?thesis
    using l [of components violations] l [of components' violations']
    by (metis prod.inject)
qed

theorem assessment_ladder_witness:
  "high_count (check_code_violations sample_detections) =
     high_count [missing_gfci_violation (sample_detections ! 1)]
   \<and> medium_count (check_code_violations sample_detections) = 1
   \<and> medium_count [missing_gfci_violation (sample_detections ! 1)] = 0
   \<and> a_overall_result
       (calculate_overall_assessment sample_detections (check_code_violations sample_detections))
       = ''fail''
   \<and> a_confidence
       (calculate_overall_assessment sample_detections (check_code_violations sample_detections))
       = 85 / 100"
  using assessment_ladder
    [of sample_detections "check_code_violations sample_detections"
        "[missing_gfci_violation (sample_detections ! 1)]" "[]"]
  by (simp add: sample_detections_def check_code_violations_def get_gfci_protected_def
        high_count_def medium_count_def ladder_def missing_gfci_violation_def
        potential_overcrowding_violation_def)

section \<open>Recommendations\<close>

lemma recommend_loop_acc: "recommend_loop vs acc = acc @ map recommendation_for vs"
  by (induction vs arbitrary: acc) simp_all

lemma generate_recommendations_eq:
  "generate_recommendations vs =
     (if vs = [] then
        [''Installation appears to meet basic code requirements. Consider professional inspection for final verification.'']
      else map recommendation_for vs)"
  by (simp add: generate_recommendations_def Let_def recommend_loop_acc)

text \<open>
  C7. The recommendation list is never empty. For no violations it is the single sentence
  that the installation appears to meet basic requirements and that a professional
  inspection is advised. Otherwise it has one sentence per violation, in order: the fixed
  sentence of the kind for \<^verbatim>\<open>missing_gfci\<close>, \<^verbatim>\<open>potential_overcrowding\<close> and
  \<^verbatim>\<open>improper_grounding\<close>, and for any other kind the sentence
  ``Address kind - refer to reference'', where the reference is \<^verbatim>\<open>NEC\<close> when the
  violation has none.
\<close>

theorem recommendations_never_empty:
  "generate_recommendations vs \<noteq> []
   \<and> (vs = [] \<longrightarrow> generate_recommendations vs =
        [''Installation appears to meet basic code requirements. Consider professional inspection for final verification.''])
   \<and> (vs \<noteq> [] \<longrightarrow> length (generate_recommendations vs) = length vs)
   \<and> (i < length vs \<longrightarrow>
        (v_type (vs ! i) = ''missing_gfci'' \<longrightarrow> generate_recommendations vs ! i =
           ''Install GFCI protection for outlets in wet locations (bathrooms, kitchens, garages, etc.)'')
      \<and> (v_type (vs ! i) = ''potential_overcrowding'' \<longrightarrow> generate_recommendations vs ! i =
           ''Verify junction box fill calculations per NEC 314.16 and consider larger box if needed'')
      \<and> (v_type (vs ! i) = ''improper_grounding'' \<longrightarrow> generate_recommendations vs ! i =
           ''Ensure proper grounding connections per NEC Article 250'')
      \<and> (v_type (vs ! i) \<notin> {''missing_gfci'', ''potential_overcrowding'', ''improper_grounding''} \<longrightarrow>
           generate_recommendations vs ! i =
             ''Address '' @ v_type (vs ! i) @ '' - refer to '' @
               (case v_code_reference (vs ! i) of None \<Rightarrow> ''NEC'' | Some r \<Rightarrow> r)))"
proof -
  have 1: "generate_recommendations vs \<noteq> []"
    by (simp add: generate_recommendations_eq)
  have 2: "vs = [] \<longrightarrow> generate_recommendations vs =
        [''Installation appears to meet basic code requirements. Consider professional inspection for final verification.'']"
    by (simp add: generate_recommendations_eq)
  have 3: "vs \<noteq> [] \<longrightarrow> length (generate_recommendations vs) = length vs"
    by (simp add: generate_recommendations_eq)
  have nth: "i < length vs \<Longrightarrow> generate_recommendations vs ! i = recommendation_for (vs ! i)"
    by (auto simp: generate_recommendations_eq)
  have 4: "i < length vs \<longrightarrow>
        (v_type (vs ! i) = ''missing_gfci'' \<longrightarrow> generate_recommendations vs ! i =
           ''Install GFCI protection for outlets in wet locations (bathrooms, kitchens, garages, etc.)'')
      \<and> (v_type (vs ! i) = ''potential_overcrowding'' \<longrightarrow> generate_recommendations vs ! i =
           ''Verify junction box fill calculations per NEC 314.16 and consider larger box if needed'')
      \<and> (v_type (vs ! i) = ''improper_grounding'' \<longrightarrow> generate_recommendations vs ! i =
           ''Ensure proper grounding connections per NEC Article 250'')
      \<and> (v_type (vs ! i) \<notin> {''missing_gfci'', ''potential_overcrowding'', ''improper_grounding''} \<longrightarrow>
           generate_recommendations vs ! i =
             ''Address '' @ v_type (vs ! i) @ '' - refer to '' @
               (case v_code_reference (vs ! i) of None \<Rightarrow> ''NEC'' | Some r \<Rightarrow> r))"
  proof
    assume "i < length vs"
    then have e: "generate_recommendations vs ! i = recommendation_for (vs ! i)" by (rule nth)
    show "(v_type (vs ! i) = ''missing_gfci'' \<longrightarrow> generate_recommendations vs ! i =
           ''Install GFCI protection for outlets in wet locations (bathrooms, kitchens, garages, etc.)'')
      \<and> (v_type (vs ! i) = ''potential_overcrowding'' \<longrightarrow> generate_recommendations vs ! i =
           ''Verify junction box fill calculations per NEC 314.16 and consider larger box if needed'')
      \<and> (v_type (vs ! i) = ''improper_grounding'' \<longrightarrow> generate_recommendations vs ! i =
           ''Ensure proper grounding connections per NEC Article 250'')
      \<and> (v_type (vs ! i) \<notin> {''missing_gfci'', ''potential_overcrowding'', ''improper_grounding''} \<longrightarrow>
           generate_recommendations vs ! i =
             ''Address '' @ v_type (vs ! i) @ '' - refer to '' @
               (case v_code_reference (vs ! i) of None \<Rightarrow> ''NEC'' | Some r \<Rightarrow> r))"
      unfolding e by (simp add: recommendation_for_def)
  qed
  from 1 2 3 4 show ?thesis by blast
qed

theorem recommendations_never_empty_witness:
  "sample_violations \<noteq> [] \<and> 1 < length sample_violations
   \<and> v_type (sample_violations ! 1)
       \<notin> {''missing_gfci'', ''potential_overcrowding'', ''improper_grounding''}
   \<and> length (generate_recommendations sample_violations) = 2
   \<and> generate_recommendations sample_violations ! 1 = ''Address safety_hazard - refer to NEC''"
  using recommendations_never_empty [of sample_violations 1]
  by (simp add: sample_violations_def)

section \<open>Temporal fold\<close>

lemma get_overall_result_frame_with:
  "get_overall_result (frame_with (Some r)) = r"
  "get_overall_result (frame_with None) = ''unknown''"
  by (simp_all add: get_overall_result_def frame_with_def)

text \<open>
  C3. For a non-empty sequence of frame assessments the video result is fail when some
  frame's result is fail; otherwise warning when some frame's result is warning; otherwise
  pass when every frame's result is pass; otherwise warning. The four sequences of the
  specification fold to fail, warning, pass and warning, where an unknown result is either
  a missing one or the word itself.
\<close>

theorem video_fold:
  "(fa \<noteq> [] \<longrightarrow>
      calculate_video_assessment fa =
        (if \<exists>f \<in> set fa. get_overall_result f = ''fail'' then ''fail''
         else if \<exists>f \<in> set fa. get_overall_result f = ''warning'' then ''warning''
         else if \<forall>f \<in> set fa. get_overall_result f = ''pass'' then ''pass''
         else ''warning''))
   \<and> calculate_video_assessment
        [frame_with (Some ''pass''), frame_with (Some ''pass''), frame_with (Some ''fail'')] = ''fail''
   \<and> calculate_video_assessment [frame_with (Some ''pass''), frame_with (Some ''warning'')] = ''warning''
   \<and> calculate_video_assessment
        [frame_with (Some ''pass''), frame_with (Some ''pass''), frame_with (Some ''pass'')] = ''pass''
   \<and> calculate_video_assessment [frame_with None, frame_with (Some ''pass'')] = ''warning''
   \<and> calculate_video_assessment [frame_with (Some ''unknown''), frame_with (Some ''pass'')] = ''warning''"
proof -
  have gen: "fa \<noteq> [] \<longrightarrow>
      calculate_video_assessment fa =
        (if \<exists>f \<in> set fa. get_overall_result f = ''fail'' then ''fail''
         else if \<exists>f \<in> set fa. get_overall_result f = ''warning'' then ''warning''
         else if \<forall>f \<in> set fa. get_overall_result f = ''pass'' then ''pass''
         else ''warning'')"
    by (auto simp: calculate_video_assessment_def Let_def list_all_iff image_iff)
  have ex: "calculate_video_assessment
        [frame_with (Some ''pass''), frame_with (Some ''pass''), frame_with (Some ''fail'')] = ''fail''"
    "calculate_video_assessment [frame_with (Some ''pass''), frame_with (Some ''warning'')] = ''warning''"
    "calculate_video_assessment
        [frame_with (Some ''pass''), frame_with (Some ''pass''), frame_with (Some ''pass'')] = ''pass''"
    "calculate_video_assessment [frame_with None, frame_with (Some ''pass'')] = ''warning''"
    "calculate_video_assessment [frame_with (Some ''unknown''), frame_with (Some ''pass'')] = ''warning''"
    by (simp_all add: calculate_video_assessment_def Let_def get_overall_result_frame_with)
  from gen ex show ?thesis by blast
qed

theorem video_fold_witness:
  "[frame_with (Some ''error''), frame_with (Some ''pass'')] \<noteq> []
   \<and> calculate_video_assessment [frame_with (Some ''error''), frame_with (Some ''pass'')]
       = ''warning''"
  using video_fold [of "[frame_with (Some ''error''), frame_with (Some ''pass'')]"]
  by (simp add: get_overall_result_frame_with)

section \<open>Image analysis and video analysis\<close>

lemma preprocess_image_cases:
  "preprocess_image (Unreadable e) = Inl (''Error preprocessing image: '' @ e)"
  "preprocess_image (Readable w h) = Inr [1, 224, 224, 3]"
  by (simp_all add: preprocess_image_def open_image_def)

lemma analyze_image_body_Unreadable:
  "analyze_image_body now (Unreadable e) = Inl (''Error preprocessing image: '' @ e)"
  by (simp add: analyze_image_body_def preprocess_image_cases)

lemma analyze_image_body_Readable:
  "\<exists>r. analyze_image_body now (Readable w h) = Inr r \<and> r_recommendations r \<noteq> []
       \<and> r_error r = None \<and> r_detected_components r \<noteq> None \<and> r_violations_found r \<noteq> None
       \<and> r_overall_result r \<noteq> None"
  by (simp add: analyze_image_body_def preprocess_image_cases open_image_def Let_def
        generate_recommendations_eq)

text \<open>
  C10. \<^verbatim>\<open>analyze_image\<close> returns a record on every input: the value of the
  \<^verbatim>\<open>try\<close> body when it completes, and the handler's record when it raises. In both
  cases the components, the violations and the overall result are present. The body
  raises exactly when the image cannot be opened or decoded. The handler's record has the
  overall result error, no components, no violations, overall confidence 0 and no
  recommendations, while a record of the success path always has a recommendation.
\<close>

theorem analyze_image_total:
  "(analyze_image_body now f = Inr r \<longrightarrow>
      analyze_image now f = r \<and> r_recommendations r \<noteq> [] \<and> r_error r = None)
   \<and> (analyze_image_body now f = Inl e \<longrightarrow>
      analyze_image now f =
        \<lparr> r_detected_components = Some [],
          r_violations_found = Some [],
          r_overall_result = Some ''error'',
          r_confidence_scores =
            \<lparr> overall_confidence = 0, component_detection = None, violation_detection = None \<rparr>,
          r_summary = [],
          r_recommendations = [],
          r_analysis_metadata = None,
          r_error = Some e \<rparr>)
   \<and> ((\<exists>e. analyze_image_body now f = Inl e) \<longleftrightarrow> (\<exists>m. f = Unreadable m))
   \<and> r_detected_components (analyze_image now f) \<noteq> None
   \<and> r_violations_found (analyze_image now f) \<noteq> None
   \<and> r_overall_result (analyze_image now f) \<noteq> None"
proof (cases f)
  case (Unreadable m)
  then show ?thesis
    by (simp add: analyze_image_def analyze_image_body_Unreadable)
next
  case (Readable w h)
  obtain r' where r': "analyze_image_body now (Readable w h) = Inr r'"
    "r_recommendations r' \<noteq> []" "r_error r' = None" "r_detected_components r' \<noteq> None"
    "r_violations_found r' \<noteq> None" "r_overall_result r' \<noteq> None"
    using analyze_image_body_Readable [of now w h] by blast
  with Readable show ?thesis
    by (auto simp: analyze_image_def)
qed

theorem analyze_image_total_witness:
  "analyze_image_body 0 (Unreadable ''cannot identify image file'') =
     Inl ''Error preprocessing image: cannot identify image file''
   \<and> r_overall_result (analyze_image 0 (Unreadable ''cannot identify image file'')) = Some ''error''
   \<and> r_recommendations (analyze_image 0 (Unreadable ''cannot identify image file'')) = []
   \<and> r_error (analyze_image 0 (Unreadable ''cannot identify image file'')) =
       Some ''Error preprocessing image: cannot identify image file''
   \<and> (\<exists>r. analyze_image_body 0 (Readable 640 480) = Inr r
          \<and> analyze_image 0 (Readable 640 480) = r \<and> r_recommendations r \<noteq> [])"
proof -
  have h: "analyze_image_body 0 (Unreadable ''cannot identify image file'') =
     Inl ''Error preprocessing image: cannot identify image file''"
    by (simp add: analyze_image_body_def preprocess_image_def open_image_def)
  note t = analyze_image_total [of 0 "Unreadable ''cannot identify image file''" undefined
      "''Error preprocessing image: cannot identify image file''"]
  from t h have e: "analyze_image 0 (Unreadable ''cannot identify image file'') =
        \<lparr> r_detected_components = Some [],
          r_violations_found = Some [],
          r_overall_result = Some ''error'',
          r_confidence_scores =
            \<lparr> overall_confidence = 0, component_detection = None, violation_detection = None \<rparr>,
          r_summary = [],
          r_recommendations = [],
          r_analysis_metadata = None,
          r_error = Some ''Error preprocessing image: cannot identify image file'' \<rparr>"
    by blast
  obtain r where r: "analyze_image_body 0 (Readable 640 480) = Inr r"
    by (simp add: analyze_image_body_def preprocess_image_def open_image_def Let_def)
  from analyze_image_total [of 0 "Readable 640 480" r undefined] r
  have s: "analyze_image 0 (Readable 640 480) = r \<and> r_recommendations r \<noteq> []"
    by blast
  from h r s show ?thesis by (simp add: e)
qed

lemma extract_loop_count: "snd (extract_loop fs n acc) = n + length fs"
  by (induction fs arbitrary: n acc) simp_all

lemma extract_loop_length: "length acc \<le> length (fst (extract_loop fs n acc))"
proof (induction fs arbitrary: n acc)
  case Nil
  show ?case by simp
next
  case (Cons f fs)
  have "length (acc @ [(n, f)]) \<le> length (fst (extract_loop fs (n + 1) (acc @ [(n, f)])))"
    by (rule Cons.IH)
  moreover have "length acc \<le> length (fst (extract_loop fs (n + 1) acc))"
    by (rule Cons.IH)
  ultimately show ?case by simp
qed

lemma extract_loop_nonempty: "fst (extract_loop (f # fs) 0 []) \<noteq> []"
proof -
  have "length [(0::nat, f)] \<le> length (fst (extract_loop fs 1 [(0, f)]))"
    by (rule extract_loop_length)
  then show ?thesis by auto
qed

lemma cap_video_VideoCapture: "cap_video (VideoCapture v) = v"
  by (simp add: VideoCapture_def)

lemma fps_after_release: "cap_get_fps (cap_release (VideoCapture v)) = 0"
  by (simp add: cap_get_fps_def cap_release_def VideoCapture_def)

lemma extract_key_frames_Inr:
  "extract_key_frames (Inr v) = (fst (extract_loop (vid_frames v) 0 []), 0)"
  by (simp add: extract_key_frames_def Let_def fps_after_release cap_video_VideoCapture
        split: prod.splits)

lemma extract_key_frames_Inl: "extract_key_frames (Inl e) = ([], 0)"
  by (simp add: extract_key_frames_def)

lemma no_frames_iff:
  "fst (extract_key_frames vp) = [] \<longleftrightarrow> (case vp of Inl e \<Rightarrow> True | Inr cap \<Rightarrow> vid_frames cap = [])"
proof (cases vp)
  case (Inl e)
  then show ?thesis by (simp add: extract_key_frames_def)
next
  case (Inr cap)
  show ?thesis
  proof (cases "vid_frames cap")
    case Nil
    with Inr show ?thesis by (simp add: extract_key_frames_Inr)
  next
    case (Cons f fs)
    with Inr extract_loop_nonempty [of f fs] show ?thesis
      by (simp add: extract_key_frames_Inr)
  qed
qed

text \<open>
  C6. When frame extraction yields no frame, the video assessment has the overall result
  error, duration 0 and no frame assessments. Extraction yields no frame exactly when it
  raises or the video has no readable frame.
\<close>

theorem no_frames_is_error:
  "(fst (extract_key_frames vp) = [] \<longrightarrow>
      va_overall_result (analyze_video clock vp) = ''error''
      \<and> va_duration (analyze_video clock vp) = 0
      \<and> va_frame_analyses (analyze_video clock vp) = [])
   \<and> (fst (extract_key_frames vp) = [] \<longleftrightarrow>
        (case vp of Inl e \<Rightarrow> True | Inr cap \<Rightarrow> vid_frames cap = []))"
proof -
  have "fst (extract_key_frames vp) = [] \<longrightarrow>
      va_overall_result (analyze_video clock vp) = ''error''
      \<and> va_duration (analyze_video clock vp) = 0
      \<and> va_frame_analyses (analyze_video clock vp) = []"
    by (simp add: analyze_video_def split: prod.splits)
  with no_frames_iff [of vp] show ?thesis by blast
qed

theorem no_frames_is_error_witness:
  "fst (extract_key_frames (Inr \<lparr> vid_frames = [], vid_fps = 25 \<rparr>)) = []
   \<and> va_overall_result (analyze_video (\<lambda>i. 0) (Inr \<lparr> vid_frames = [], vid_fps = 25 \<rparr>)) = ''error''
   \<and> va_duration (analyze_video (\<lambda>i. 0) (Inr \<lparr> vid_frames = [], vid_fps = 25 \<rparr>)) = 0
   \<and> va_frame_analyses (analyze_video (\<lambda>i. 0) (Inr \<lparr> vid_frames = [], vid_fps = 25 \<rparr>)) = []"
proof -
  have h: "fst (extract_key_frames (Inr \<lparr> vid_frames = [], vid_fps = 25 \<rparr>)) = []"
    by (simp add: extract_key_frames_Inr)
  with no_frames_is_error [of "Inr \<lparr> vid_frames = [], vid_fps = 25 \<rparr>" "\<lambda>i. 0"]
  show ?thesis by blast
qed


lemma analyze_frames_fst:
  "fst (analyze_frames clock ps i (fas, cs, vs)) =
     fas @ map (\<lambda>(j, p). frame_record clock j p) (zip [i ..< i + length ps] ps)"
proof (induction ps arbitrary: i fas cs vs)
  case Nil
  show ?case by simp
next
  case (Cons p ps)
  have u: "[i ..< i + length (p # ps)] = i # [Suc i ..< Suc i + length ps]"
    by (subst upt_conv_Cons) simp_all
  show ?case
    unfolding u by (simp add: Let_def Cons.IH frame_record_def)
qed

lemma va_frame_analyses_eq:
  "va_frame_analyses (analyze_video clock vp) =
     map (\<lambda>(j, p). frame_record clock j p)
       (zip [0 ..< length (fst (extract_key_frames vp))] (fst (extract_key_frames vp)))"
proof (cases "fst (extract_key_frames vp) = []")
  case True
  then show ?thesis by (auto simp: analyze_video_def split: prod.splits)
next
  case False
  obtain ps d where e: "extract_key_frames vp = (ps, d)" by (cases "extract_key_frames vp")
  obtain fas cs vs where a: "analyze_frames clock ps 0 ([], [], []) = (fas, cs, vs)"
    by (cases "analyze_frames clock ps 0 ([], [], [])")
  from analyze_frames_fst [of clock ps 0 "[]" "[]" "[]"] a
  have "fas = map (\<lambda>(j, p). frame_record clock j p) (zip [0 ..< length ps] ps)" by simp
  with False e a show ?thesis by (simp add: analyze_video_def)
qed

lemma va_duration_eq:
  "fst (extract_key_frames vp) \<noteq> [] \<Longrightarrow>
   va_duration (analyze_video clock vp) = snd (extract_key_frames vp)"
  by (auto simp: analyze_video_def split: prod.splits)

lemma extract_duration_zero: "snd (extract_key_frames vp) = 0"
  by (cases vp) (simp_all add: extract_key_frames_Inl extract_key_frames_Inr)

lemma frame_timestamps:
  "k < length (va_frame_analyses (analyze_video clock vp)) \<Longrightarrow>
     frame_number (va_frame_analyses (analyze_video clock vp) ! k) = k * 30
     \<and> timestamp (va_frame_analyses (analyze_video clock vp) ! k) = real (k * 30) / 30"
  by (simp add: va_frame_analyses_eq frame_record_def frame_extraction_interval_def)

text \<open>
  C9. The claim gives a video with a positive reported frame rate the duration
  frames / rate. The source computes just this quotient, but from the rate that the
  capture returns after \<^verbatim>\<open>cap.release()\<close>; a released capture returns 0, so the guard
  \<^verbatim>\<open>fps > 0\<close> fails and the duration is 0 for every video
  (\<open>extract_duration_zero\<close>). For a video of 60 frames reporting 30 frames per second,
  whose open capture returns the rate 30, extraction and the video assessment give the
  duration 0 where the specification gives 2. The other half of the claim holds: the
  frame assessment at position \<open>k\<close> has the time stamp \<open>30 k / 30\<close>
  (\<open>frame_timestamps\<close>).
\<close>

theorem duration_lost_after_release:
  "cap_get_fps (VideoCapture sample_video) = 30
   \<and> snd (extract_key_frames (Inr sample_video)) = 0
   \<and> va_duration (analyze_video (\<lambda>i. 0) (Inr sample_video)) = 0
   \<and> spec_duration sample_video = 2"
proof -
  have 1: "cap_get_fps (VideoCapture sample_video) = 30"
    by (simp add: cap_get_fps_def VideoCapture_def sample_video_def)
  have 2: "snd (extract_key_frames (Inr sample_video)) = 0"
    by (rule extract_duration_zero)
  have "vid_frames sample_video \<noteq> []"
    by (simp add: sample_video_def)
  then have "fst (extract_key_frames (Inr sample_video)) \<noteq> []"
    using no_frames_iff [of "Inr sample_video"] by simp
  from va_duration_eq [OF this] 2
  have 3: "va_duration (analyze_video (\<lambda>i. 0) (Inr sample_video)) = 0"
    by simp
  have 4: "spec_duration sample_video = 2"
    by (simp add: spec_duration_def sample_video_def)
  from 1 2 3 4 show ?thesis by (intro conjI)
qed

section \<open>Query retrieval and response composition\<close>

lemma starts_with_refl: "starts_with s s"
  by (induction s) simp_all

lemma str_in_refl: "str_in s s"
  by (cases s) (simp_all add: starts_with_refl)

lemma score_section_keywords_eq:
  "score_section_keywords keyword sks score =
     score + length (filter (\<lambda>sk. str_in keyword sk \<or> str_in sk keyword) sks)"
  by (induction sks arbitrary: score) (simp_all add: str_in_refl)

lemma score_keywords_eq:
  "score_keywords kws sks score =
     score + sum_list (map (\<lambda>keyword.
               length (filter (\<lambda>sk. str_in keyword sk \<or> str_in sk keyword) sks)) kws)"
  by (induction kws arbitrary: score) (simp_all add: score_section_keywords_eq)

lemma section_score_eq:
  "section_score kws d =
     sum_list (map (\<lambda>keyword.
       length (filter (\<lambda>sk. str_in keyword sk \<or> str_in sk keyword) (get_keywords d))) kws)"
  by (simp add: section_score_def score_keywords_eq)

text \<open>
  C1. The claim gives 2 to a pair of equal strings. In the source the substring test comes
  first and holds for equal strings, so the branch that adds 2 is never taken and every
  pair in which one string contains the other adds 1 (\<open>section_score_eq\<close>). For the
  single token \<^verbatim>\<open>gfci\<close> the search returns section 210.8, whose eight keywords
  include \<^verbatim>\<open>gfci\<close>, with score 1/9, where the score of the specification is 2/9.
\<close>

theorem exact_match_scores_one:
  "search_nec_sections init_service [''gfci''] = [(''210.8'', 1 / 9)]
   \<and> spec_score [''gfci''] (get_keywords (snd (nec_database init_service ! 0))) = 2 / 9"
  by (simp add: init_service_def initialize_nec_database_def get_keywords_def section_score_def
       search_nec_sections_def normalized_score_def spec_score_def spec_pair_score_def)


lemma gfci_fast_path_fields:
  "p_primary_reference gfci_fast_path = ''210.8''"
  "p_pattern gfci_fast_path = two_groups [''gfci''] [''required'', ''need'', ''install'']"
  by (simp_all add: gfci_fast_path_def initialize_query_patterns_def)

lemma match_gfci:
  assumes "common_patterns self = initialize_query_patterns"
      and "re_match (p_pattern gfci_fast_path) query"
  shows "match_query_patterns self query =
           Some \<lparr> pm_response = p_response_template gfci_fast_path,
                  pm_primary_reference = ''210.8'',
                  pm_confidence = 85 / 100 \<rparr>"
proof -
  obtain rest where r: "initialize_query_patterns = gfci_fast_path # rest"
    by (simp add: initialize_query_patterns_def gfci_fast_path_def)
  show ?thesis
    using assms by (simp add: match_query_patterns_def r gfci_fast_path_fields(1))
qed

lemma enhance_fields:
  "q_confidence (enhance_response_with_context rd query) = q_confidence rd"
  "q_references (enhance_response_with_context rd query) = q_references rd"
  "q_error (enhance_response_with_context rd query) = q_error rd"
  by (simp_all add: enhance_response_with_context_def Let_def)

text \<open>
  C5. For a service with the pattern list of the source and any code table, a query that
  the GFCI pattern matches is answered from the pattern alone: the result is the pattern's
  template with one citation of section 210.8, passed through the advisory step, which
  changes the text only. Its confidence is 0.85 and its citation is section 210.8 and
  they stay so when the code table is replaced by any other.
\<close>

theorem gfci_fast_path_response:
  "common_patterns self = initialize_query_patterns \<and>
   re_match (p_pattern gfci_fast_path) query \<longrightarrow>
     process_query self query =
       enhance_response_with_context
         \<lparr> q_response = p_response_template gfci_fast_path,
           q_references =
             [\<lparr> ref_section = ''210.8'',
                ref_title =
                  (case map_of (nec_database self) ''210.8'' of
                     None \<Rightarrow> ''NEC Section'' | Some d \<Rightarrow> s_title d),
                ref_relevance = 85 / 100 \<rparr>],
           q_confidence = 85 / 100,
           q_error = None \<rparr> query
     \<and> q_confidence (process_query self query) = 85 / 100
     \<and> map ref_section (q_references (process_query self query)) = [''210.8'']
     \<and> map ref_section (q_references (process_query (self \<lparr> nec_database := db \<rparr>) query)) =
         [''210.8'']
     \<and> q_confidence (process_query (self \<lparr> nec_database := db \<rparr>) query) = 85 / 100"
proof
  assume a: "common_patterns self = initialize_query_patterns \<and>
             re_match (p_pattern gfci_fast_path) query"
  have p: "process_query s query =
       enhance_response_with_context
         \<lparr> q_response = p_response_template gfci_fast_path,
           q_references =
             [\<lparr> ref_section = ''210.8'',
                ref_title =
                  (case map_of (nec_database s) ''210.8'' of
                     None \<Rightarrow> ''NEC Section'' | Some d \<Rightarrow> s_title d),
                ref_relevance = 85 / 100 \<rparr>],
           q_confidence = 85 / 100,
           q_error = None \<rparr> query"
    if "common_patterns s = initialize_query_patterns" for s
    using match_gfci [of s query] that a by (simp add: process_query_def Let_def)
  have q: "common_patterns (self \<lparr> nec_database := db \<rparr>) = initialize_query_patterns"
    using a by simp
  show "process_query self query =
       enhance_response_with_context
         \<lparr> q_response = p_response_template gfci_fast_path,
           q_references =
             [\<lparr> ref_section = ''210.8'',
                ref_title =
                  (case map_of (nec_database self) ''210.8'' of
                     None \<Rightarrow> ''NEC Section'' | Some d \<Rightarrow> s_title d),
                ref_relevance = 85 / 100 \<rparr>],
           q_confidence = 85 / 100,
           q_error = None \<rparr> query
     \<and> q_confidence (process_query self query) = 85 / 100
     \<and> map ref_section (q_references (process_query self query)) = [''210.8'']
     \<and> map ref_section (q_references (process_query (self \<lparr> nec_database := db \<rparr>) query)) =
         [''210.8'']
     \<and> q_confidence (process_query (self \<lparr> nec_database := db \<rparr>) query) = 85 / 100"
    using p [of self] p [OF q] a by (simp add: enhance_fields)
qed

theorem gfci_fast_path_response_witness:
  "common_patterns (init_service \<lparr> nec_database := [] \<rparr>) = initialize_query_patterns
   \<and> re_match (p_pattern gfci_fast_path) ''Is GFCI required in a bathroom?''
   \<and> q_confidence (process_query (init_service \<lparr> nec_database := [] \<rparr>)
        ''Is GFCI required in a bathroom?'') = 85 / 100
   \<and> map ref_section (q_references (process_query (init_service \<lparr> nec_database := [] \<rparr>)
        ''Is GFCI required in a bathroom?'')) = [''210.8'']"
proof -
  have h1: "common_patterns (init_service \<lparr> nec_database := [] \<rparr>) = initialize_query_patterns"
    by (simp add: init_service_def)
  have h2: "re_match (p_pattern gfci_fast_path) ''Is GFCI required in a bathroom?''"
    by (simp add: gfci_fast_path_fields two_groups_def lower_char_def)
  from gfci_fast_path_response
    [of "init_service \<lparr> nec_database := [] \<rparr>" "''Is GFCI required in a bathroom?''" "[]"]
    h1 h2
  show ?thesis by blast
qed

lemma subsections_loop_snd:
  "snd (subsections_loop subs primary_data rel (parts, refs)) =
     refs @ map (subsection_reference primary_data rel) subs"
  by (induction subs arbitrary: parts refs) (auto simp: subsection_reference_def)

lemma additional_loop_refs:
  "additional_loop self others (parts, refs) = Inr (parts', refs') \<Longrightarrow>
   refs' = refs @ map (match_reference self) others"
proof (induction others arbitrary: parts refs)
  case Nil
  then show ?case by simp
next
  case (Cons m others)
  obtain sid score where m: "m = (sid, score)" by (cases m)
  from Cons.prems m obtain d where d: "lookup_section self sid = Inr d"
    by (cases "lookup_section self sid") auto
  then have md: "map_of (nec_database self) sid = Some d"
    by (auto simp: lookup_section_def split: option.splits)
  from Cons.prems m d
  have "additional_loop self others
          (parts @
             [[CHR 0x0A, CHR 0x0A] @ ''Also see NEC '' @ sid @ '' ('' @
                s_title d @ '') for related requirements.''],
           refs @ [\<lparr> ref_section = sid, ref_title = s_title d, ref_relevance = score \<rparr>])
        = Inr (parts', refs')"
    by simp
  from Cons.IH [OF this]
  show ?case
    by (simp add: m match_reference_def title_of_def md)
qed

lemma additional_loop_returns:
  "\<forall>sid \<in> fst ` set others. map_of (nec_database self) sid \<noteq> None \<Longrightarrow>
   \<exists>res. additional_loop self others acc = Inr res"
proof (induction others arbitrary: acc)
  case Nil
  show ?case by simp
next
  case (Cons m others)
  obtain sid score where m: "m = (sid, score)" by (cases m)
  obtain parts refs where acc: "acc = (parts, refs)" by (cases acc)
  from Cons.prems m obtain d where md: "map_of (nec_database self) sid = Some d" by auto
  from Cons.prems have "\<forall>sid \<in> fst ` set others. map_of (nec_database self) sid \<noteq> None"
    by simp
  from Cons.IH [OF this] show ?case
    by (simp add: m acc lookup_section_def md)
qed

lemma search_loop_ids:
  "fst ` set (search_loop db kws matches) \<subseteq> fst ` set matches \<union> fst ` set db"
  by (induction db kws matches rule: search_loop.induct) auto

lemma search_ids_in_database:
  "sid \<in> fst ` set (search_nec_sections self kws) \<Longrightarrow> map_of (nec_database self) sid \<noteq> None"
proof -
  assume a: "sid \<in> fst ` set (search_nec_sections self kws)"
  have "set (search_nec_sections self kws) \<subseteq> set (search_loop (nec_database self) kws [])"
    by (auto simp: search_nec_sections_def Let_def dest: in_set_takeD)
  with a search_loop_ids [of "nec_database self" kws "[]"]
  have "sid \<in> fst ` set (nec_database self)" by auto
  then show ?thesis by (simp add: map_of_eq_None_iff)
qed


lemma generate_response_Cons:
  assumes "lookup_section self primary_section = Inr d"
  shows "\<exists>acc. snd acc =
            \<lparr> ref_section = primary_section, ref_title = s_title d,
              ref_relevance = primary_relevance \<rparr>
            # map (subsection_reference d primary_relevance) (subsections_of d)
          \<and> generate_response self query ((primary_section, primary_relevance) # others) =
             (case additional_loop self others acc of
                Inl e \<Rightarrow> Inl e
              | Inr (response_parts, references) \<Rightarrow>
                  Inr \<lparr> q_response = concat response_parts,
                        q_references = references,
                        q_confidence = min (primary_relevance * (12 / 10)) (95 / 100),
                        q_error = None \<rparr>)"
proof -
  define parts0 where "parts0 =
    [''According to NEC '' @ primary_section @ '' ('' @ s_title d @ ''): '' @ s_content d]"
  define refs0 where "refs0 =
    [\<lparr> ref_section = primary_section, ref_title = s_title d,
       ref_relevance = primary_relevance \<rparr>]"
  define acc where "acc =
    (case s_subsections d of
       None \<Rightarrow> (parts0, refs0)
     | Some subsections \<Rightarrow> subsections_loop subsections d primary_relevance (parts0, refs0))"
  have acc_refs: "snd acc = refs0 @ map (subsection_reference d primary_relevance) (subsections_of d)"
    by (simp add: acc_def subsections_of_def subsections_loop_snd split: option.splits)
  have g: "generate_response self query ((primary_section, primary_relevance) # others) =
     (case additional_loop self others acc of
        Inl e \<Rightarrow> Inl e
      | Inr (response_parts, references) \<Rightarrow>
          Inr \<lparr> q_response = concat response_parts,
                q_references = references,
                q_confidence = min (primary_relevance * (12 / 10)) (95 / 100),
                q_error = None \<rparr>)"
    by (simp add: generate_response_def assms Let_def acc_def parts0_def refs0_def
          split: option.splits prod.splits)
  from acc_refs have "snd acc =
            \<lparr> ref_section = primary_section, ref_title = s_title d,
              ref_relevance = primary_relevance \<rparr>
            # map (subsection_reference d primary_relevance) (subsections_of d)"
    by (simp add: refs0_def)
  with g show ?thesis by (intro exI [of _ acc] conjI)
qed

lemma generate_response_Inr:
  assumes "generate_response self query ((primary_section, primary_relevance) # others) = Inr r"
  shows "q_confidence r = min (primary_relevance * (12 / 10)) (95 / 100)"
    and "\<exists>primary_data. map_of (nec_database self) primary_section = Some primary_data
           \<and> q_references r =
               \<lparr> ref_section = primary_section, ref_title = s_title primary_data,
                 ref_relevance = primary_relevance \<rparr>
               # map (subsection_reference primary_data primary_relevance)
                   (subsections_of primary_data)
               @ map (match_reference self) others"
proof -
  from assms obtain d where d: "lookup_section self primary_section = Inr d"
    by (cases "lookup_section self primary_section") (auto simp: generate_response_def)
  then have md: "map_of (nec_database self) primary_section = Some d"
    by (auto simp: lookup_section_def split: option.splits)
  from generate_response_Cons [OF d, of primary_relevance query others]
  obtain acc where acc_refs: "snd acc =
            \<lparr> ref_section = primary_section, ref_title = s_title d,
              ref_relevance = primary_relevance \<rparr>
            # map (subsection_reference d primary_relevance) (subsections_of d)"
    and g: "generate_response self query ((primary_section, primary_relevance) # others) =
             (case additional_loop self others acc of
                Inl e \<Rightarrow> Inl e
              | Inr (response_parts, references) \<Rightarrow>
                  Inr \<lparr> q_response = concat response_parts,
                        q_references = references,
                        q_confidence = min (primary_relevance * (12 / 10)) (95 / 100),
                        q_error = None \<rparr>)"
    by blast
  from assms g obtain parts' refs' where
    a: "additional_loop self others acc = Inr (parts', refs')"
    and r: "r = \<lparr> q_response = concat parts', q_references = refs',
                  q_confidence = min (primary_relevance * (12 / 10)) (95 / 100),
                  q_error = None \<rparr>"
    by (cases "additional_loop self others acc") auto
  from r show "q_confidence r = min (primary_relevance * (12 / 10)) (95 / 100)" by simp
  from a have "additional_loop self others (fst acc, snd acc) = Inr (parts', refs')" by simp
  from additional_loop_refs [OF this]
  have "refs' = snd acc @ map (match_reference self) others" .
  with acc_refs r md
  show "\<exists>primary_data. map_of (nec_database self) primary_section = Some primary_data
           \<and> q_references r =
               \<lparr> ref_section = primary_section, ref_title = s_title primary_data,
                 ref_relevance = primary_relevance \<rparr>
               # map (subsection_reference primary_data primary_relevance)
                   (subsections_of primary_data)
               @ map (match_reference self) others"
    by simp
qed

lemma generate_response_returns:
  assumes "\<forall>sid \<in> fst ` set relevant_sections. map_of (nec_database self) sid \<noteq> None"
  shows "\<exists>r. generate_response self query relevant_sections = Inr r"
proof (cases relevant_sections)
  case Nil
  then show ?thesis by (simp add: generate_response_def)
next
  case (Cons m others)
  obtain sid score where m: "m = (sid, score)" by (cases m)
  from assms Cons m obtain d where md: "map_of (nec_database self) sid = Some d" by auto
  then have d: "lookup_section self sid = Inr d" by (simp add: lookup_section_def)
  from generate_response_Cons [OF d, of score query others]
  obtain acc where
    g: "generate_response self query ((sid, score) # others) =
             (case additional_loop self others acc of
                Inl e \<Rightarrow> Inl e
              | Inr (response_parts, references) \<Rightarrow>
                  Inr \<lparr> q_response = concat response_parts,
                        q_references = references,
                        q_confidence = min (score * (12 / 10)) (95 / 100),
                        q_error = None \<rparr>)"
    by blast
  from assms Cons have "\<forall>sid \<in> fst ` set others. map_of (nec_database self) sid \<noteq> None"
    by simp
  from additional_loop_returns [OF this]
  obtain res where "additional_loop self others acc = Inr res" by blast
  with g Cons m show ?thesis by (cases res) simp
qed

text \<open>
  C8. When the composer returns a response for a match list with primary entry
  \<open>primary_section\<close> of relevance \<open>primary_relevance\<close>, the confidence of the response is
  the smaller of 1.2 times the primary relevance and 0.95, hence never 1; its citations
  are the primary entry, then each subsection of the primary entry at 0.9 times the
  primary relevance, then the other matches at their own scores. The composer returns a
  response whenever every section of the match list is an entry of the code table, and
  every section that the search returns is one. Scores are read as real numbers.
\<close>

theorem response_confidence_cap:
  "(generate_response self query ((primary_section, primary_relevance) # others) = Inr r \<longrightarrow>
      q_confidence r = min (primary_relevance * (12 / 10)) (95 / 100)
      \<and> q_confidence r \<noteq> 1
      \<and> (\<exists>primary_data. map_of (nec_database self) primary_section = Some primary_data
           \<and> q_references r =
               \<lparr> ref_section = primary_section, ref_title = s_title primary_data,
                 ref_relevance = primary_relevance \<rparr>
               # map (subsection_reference primary_data primary_relevance)
                   (subsections_of primary_data)
               @ map (match_reference self) others))
   \<and> ((\<forall>sid \<in> fst ` set relevant_sections. map_of (nec_database self) sid \<noteq> None) \<longrightarrow>
        (\<exists>r'. generate_response self query relevant_sections = Inr r'))
   \<and> (\<forall>sid \<in> fst ` set (search_nec_sections self kws).
         map_of (nec_database self) sid \<noteq> None)
   \<and> ref_relevance (subsection_reference primary_data' primary_relevance sub) =
       9 / 10 * primary_relevance"
proof -
  have 1: "generate_response self query ((primary_section, primary_relevance) # others) = Inr r \<longrightarrow>
      q_confidence r = min (primary_relevance * (12 / 10)) (95 / 100)
      \<and> q_confidence r \<noteq> 1
      \<and> (\<exists>primary_data. map_of (nec_database self) primary_section = Some primary_data
           \<and> q_references r =
               \<lparr> ref_section = primary_section, ref_title = s_title primary_data,
                 ref_relevance = primary_relevance \<rparr>
               # map (subsection_reference primary_data primary_relevance)
                   (subsections_of primary_data)
               @ map (match_reference self) others)"
  proof
    assume a: "generate_response self query ((primary_section, primary_relevance) # others) = Inr r"
    note c = generate_response_Inr(1) [OF a] and refs = generate_response_Inr(2) [OF a]
    from c have "q_confidence r \<le> 95 / 100" by simp
    then have "q_confidence r \<noteq> 1" by simp
    with c refs show "q_confidence r = min (primary_relevance * (12 / 10)) (95 / 100)
      \<and> q_confidence r \<noteq> 1
      \<and> (\<exists>primary_data. map_of (nec_database self) primary_section = Some primary_data
           \<and> q_references r =
               \<lparr> ref_section = primary_section, ref_title = s_title primary_data,
                 ref_relevance = primary_relevance \<rparr>
               # map (subsection_reference primary_data primary_relevance)
                   (subsections_of primary_data)
               @ map (match_reference self) others)"
      by blast
  qed
  have 2: "(\<forall>sid \<in> fst ` set relevant_sections. map_of (nec_database self) sid \<noteq> None) \<longrightarrow>
        (\<exists>r'. generate_response self query relevant_sections = Inr r')"
    using generate_response_returns [of relevant_sections self query] by blast
  have 3: "\<forall>sid \<in> fst ` set (search_nec_sections self kws).
         map_of (nec_database self) sid \<noteq> None"
    using search_ids_in_database [of _ self kws] by blast
  have 4: "ref_relevance (subsection_reference primary_data' primary_relevance sub) =
       9 / 10 * primary_relevance"
    by (simp add: subsection_reference_def)
  from 1 2 3 4 show ?thesis by blast
qed


theorem response_confidence_cap_witness:
  "map fst sample_matches = [''210.8'', ''240.21'']
   \<and> map_of (nec_database init_service) ''210.8'' \<noteq> None
   \<and> map_of (nec_database init_service) ''240.21'' \<noteq> None
   \<and> (\<exists>r. generate_response init_service ''gfci breaker'' sample_matches = Inr r
          \<and> q_confidence r = 95 / 100
          \<and> map ref_section (q_references r) = [''210.8'', ''210.8(A)'', ''210.8(B)'', ''240.21'']
          \<and> map ref_relevance (q_references r) = [9 / 10, 81 / 100, 81 / 100, 1 / 7])"
proof -
  have ids: "\<forall>sid \<in> fst ` set sample_matches. map_of (nec_database init_service) sid \<noteq> None"
    by (simp add: sample_matches_def init_service_def initialize_nec_database_def)
  from response_confidence_cap
    [of init_service "''gfci breaker''" "''210.8''" "9 / 10" "[(''240.21'', 1 / 7)]" undefined
        sample_matches] ids
  obtain r where r: "generate_response init_service ''gfci breaker'' sample_matches = Inr r"
    by blast
  then have r': "generate_response init_service ''gfci breaker''
                   ((''210.8'', 9 / 10) # [(''240.21'', 1 / 7)]) = Inr r"
    by (simp add: sample_matches_def)
  note t = response_confidence_cap
    [of init_service "''gfci breaker''" "''210.8''" "9 / 10" "[(''240.21'', 1 / 7)]" r]
  from t r' have c: "q_confidence r = min (9 / 10 * (12 / 10)) (95 / 100)"
    by blast
  from t r' obtain d where d: "map_of (nec_database init_service) ''210.8'' = Some d"
    and refs: "q_references r =
               \<lparr> ref_section = ''210.8'', ref_title = s_title d, ref_relevance = 9 / 10 \<rparr>
               # map (subsection_reference d (9 / 10)) (subsections_of d)
               @ map (match_reference init_service) [(''240.21'', 1 / 7)]"
    by blast
  from d have sd: "map fst (subsections_of d) = [''210.8(A)'', ''210.8(B)'']"
    by (auto simp: init_service_def initialize_nec_database_def subsections_of_def)
  then have len: "length (subsections_of d) = 2"
    by (metis length_map length_Cons list.size(3) numeral_2_eq_2)
  from c have c': "q_confidence r = 95 / 100" by simp
  from refs sd have s: "map ref_section (q_references r) =
      [''210.8'', ''210.8(A)'', ''210.8(B)'', ''240.21'']"
    by (simp add: subsection_reference_def match_reference_def comp_def)
  have "map (ref_relevance \<circ> subsection_reference d (9 / 10)) (subsections_of d) =
        replicate (length (subsections_of d)) (81 / 100)"
    by (simp add: subsection_reference_def comp_def map_replicate_const)
  with len have "map (ref_relevance \<circ> subsection_reference d (9 / 10)) (subsections_of d) =
        [81 / 100, 81 / 100]"
    by (simp add: numeral_2_eq_2)
  with refs have v: "map ref_relevance (q_references r) = [9 / 10, 81 / 100, 81 / 100, 1 / 7]"
    by (simp add: match_reference_def)
  have k: "map fst sample_matches = [''210.8'', ''240.21'']"
    "map_of (nec_database init_service) ''210.8'' \<noteq> None"
    "map_of (nec_database init_service) ''240.21'' \<noteq> None"
    by (simp_all add: sample_matches_def init_service_def initialize_nec_database_def)
  from k r c' s v show ?thesis by (intro conjI exI [of _ r])
qed

end
